theory Spec2Isabelle
  imports Complex_Main
begin

section \<open>Shared data model\<close>

text \<open>
  JavaScript numbers that count requests or hold \<open>Date.now()\<close> milliseconds are integers
  in every run of the program, so they are modelled as \<open>int\<close>; scores, which the anomaly
  scorer makes fractional, are \<open>real\<close>.  A configuration key that may be missing is an
  \<open>option\<close>; \<open>None\<close> is JavaScript's \<open>undefined\<close>.
\<close>

type_synonym ip = string
type_synonym millis = int

text \<open>\<open>x || d\<close> on a number: \<open>undefined\<close> and \<open>0\<close> are falsy and give the default.\<close>

definition or_default :: "'a::zero option \<Rightarrow> 'a \<Rightarrow> 'a" where
  "or_default x d = (case x of None \<Rightarrow> d | Some v \<Rightarrow> if v = 0 then d else v)"

text \<open>A number inside a template literal: the decimal digits of an integer.\<close>

fun digits10 :: "nat \<Rightarrow> string" where
  "digits10 n =
     (if n < 10 then [''0123456789'' ! n]
      else digits10 (n div 10) @ [''0123456789'' ! (n mod 10)])"

declare digits10.simps [simp del]

definition Number_toString :: "int \<Rightarrow> string" where
  "Number_toString i = (if i < 0 then CHR ''-'' # digits10 (nat (- i)) else digits10 (nat i))"

record threat =
  t_type :: string
  t_pattern :: string
  t_description :: string
  t_score :: real
  t_matched :: string

record module_result =
  m_score :: real
  m_threats :: "threat list"
  m_module :: string

text \<open>
  The analysis record that \<open>analyzeRequest\<close> builds for one request.  \<open>query\<close>, \<open>headers\<close>
  and \<open>cookies\<close> are objects; they are lists of key and value in the order in which
  \<open>Object.values\<close> enumerates them.  A value is a string or something else (an array, a
  nested object), which every scanner skips.  A body is missing (or falsy), a string, or an
  object, of which the scanners only read the \<open>JSON.stringify\<close> text, carried here.
\<close>

datatype js_field = FString string | FOther

text \<open>
  What the anomaly scorer adds to the record: the factors that scored, and \<open>isAnomaly\<close>,
  which the source computes with \<open>||\<close> and which is therefore a JavaScript value, a boolean
  or a number.
\<close>

record anomaly_factor =
  f_type :: string
  f_score :: real

datatype js_value = JBool bool | JNum real

datatype js_body = BodyMissing | BodyString string | BodyObject string

record AnalysisRecord =
  timestamp :: millis
  ip :: string
  userAgent :: string
  "method" :: string
  path :: string
  query :: "(string \<times> js_field) list"
  body :: js_body
  headers :: "(string \<times> js_field) list"
  cookies :: "(string \<times> js_field) list"
  score :: real
  threats :: "threat list"
  modules :: "string list"
  anomalyScore :: "real option"
  anomalyFactors :: "anomaly_factor list option"
  isAnomaly :: "js_value option"
  confidence :: "real option"

section \<open>Rate-limit and IP-block module\<close>

record rateLimit_options =
  o_enabled :: bool
  o_windowMs :: "int option"
  o_max :: "int option"

record ipBlocking_options =
  o_ipBlockingEnabled :: bool
  o_blockDuration :: "int option"
  o_maxViolations :: "int option"

record requestRecord =
  count :: int
  firstRequest :: millis
  violations :: int

record blockRecord =
  blockedUntil :: millis
  reason :: string
  blockedAt :: millis

record RateLimitModule =
  enabled :: bool
  windowMs :: int
  max_requests :: int
  ipBlocking_enabled :: bool
  blockDuration :: int
  maxViolations :: int
  requests :: "ip \<rightharpoonup> requestRecord"
  blockedIPs :: "ip \<rightharpoonup> blockRecord"

text \<open>
  The constructor: \<open>config.rateLimit || {}\<close> and \<open>config.ipBlocking || {}\<close>, then each
  key with its \<open>||\<close> default.  Both tables start empty.
\<close>

definition RateLimitModule_new ::
    "rateLimit_options option \<Rightarrow> ipBlocking_options option \<Rightarrow> RateLimitModule" where
  "RateLimitModule_new rl ib =
     \<lparr> enabled = (case rl of None \<Rightarrow> False | Some c \<Rightarrow> o_enabled c),
       windowMs = or_default (case rl of None \<Rightarrow> None | Some c \<Rightarrow> o_windowMs c) (15 * 60 * 1000),
       max_requests = or_default (case rl of None \<Rightarrow> None | Some c \<Rightarrow> o_max c) 100,
       ipBlocking_enabled = (case ib of None \<Rightarrow> False | Some c \<Rightarrow> o_ipBlockingEnabled c),
       blockDuration =
         or_default (case ib of None \<Rightarrow> None | Some c \<Rightarrow> o_blockDuration c) (24 * 60 * 60 * 1000),
       maxViolations = or_default (case ib of None \<Rightarrow> None | Some c \<Rightarrow> o_maxViolations c) 5,
       requests = Map.empty,
       blockedIPs = Map.empty \<rparr>"

text \<open>
  \<open>isIPBlocked\<close> reads the clock and may delete the entry it finds expired, so it returns
  the answer together with the module.
\<close>

definition isIPBlocked :: "RateLimitModule \<Rightarrow> ip \<Rightarrow> millis \<Rightarrow> bool \<times> RateLimitModule" where
  "isIPBlocked m a now =
     (case blockedIPs m a of
        None \<Rightarrow> (False, m)
      | Some b \<Rightarrow>
          if now > blockedUntil b then (False, m\<lparr>blockedIPs := (blockedIPs m)(a := None)\<rparr>)
          else (True, m))"

definition blockIP :: "RateLimitModule \<Rightarrow> ip \<Rightarrow> string \<Rightarrow> millis \<Rightarrow> RateLimitModule" where
  "blockIP m a why now =
     m\<lparr> blockedIPs := (blockedIPs m)(a \<mapsto>
            \<lparr> blockedUntil = now + blockDuration m, reason = why, blockedAt = now \<rparr>),
        requests := (requests m)(a := None) \<rparr>"

definition unblockIP :: "RateLimitModule \<Rightarrow> ip \<Rightarrow> RateLimitModule" where
  "unblockIP m a = m\<lparr>blockedIPs := (blockedIPs m)(a := None)\<rparr>"

definition cleanup :: "RateLimitModule \<Rightarrow> millis \<Rightarrow> RateLimitModule" where
  "cleanup m now =
     m\<lparr> requests := (\<lambda>a. case requests m a of
                          None \<Rightarrow> None
                        | Some r \<Rightarrow> if now - firstRequest r > windowMs m then None else Some r),
        blockedIPs := (\<lambda>a. case blockedIPs m a of
                          None \<Rightarrow> None
                        | Some b \<Rightarrow> if now > blockedUntil b then None else Some b) \<rparr>"

definition reset :: "RateLimitModule \<Rightarrow> RateLimitModule" where
  "reset m = m\<lparr>requests := Map.empty, blockedIPs := Map.empty\<rparr>"

definition ip_blocked_result :: "ip \<Rightarrow> module_result" where
  "ip_blocked_result a =
     \<lparr> m_score = 10,
       m_threats = [\<lparr> t_type = ''ratelimit'', t_pattern = ''ip-blocked'',
                      t_description = ''IP address is blocked due to rate limiting violations'',
                      t_score = 10, t_matched = ''IP '' @ a @ '' is blocked'' \<rparr>],
       m_module = ''ratelimit'' \<rparr>"

definition ip_blocked_violations_result :: "ip \<Rightarrow> int \<Rightarrow> module_result" where
  "ip_blocked_violations_result a v =
     \<lparr> m_score = 10,
       m_threats = [\<lparr> t_type = ''ratelimit'', t_pattern = ''ip-blocked-violations'',
                      t_description = ''IP blocked due to repeated rate limit violations'',
                      t_score = 10,
                      t_matched = ''IP '' @ a @ '' blocked after '' @ Number_toString v @ '' violations'' \<rparr>],
       m_module = ''ratelimit'' \<rparr>"

definition rate_limit_exceeded_result :: "int \<Rightarrow> int \<Rightarrow> module_result" where
  "rate_limit_exceeded_result c mx =
     \<lparr> m_score = 5,
       m_threats = [\<lparr> t_type = ''ratelimit'', t_pattern = ''rate-limit-exceeded'',
                      t_description = ''Rate limit exceeded: '' @ Number_toString c @ ''/''
                                        @ Number_toString mx @ '' requests in window'',
                      t_score = 5,
                      t_matched = ''Rate limit exceeded: '' @ Number_toString c @ ''/''
                                    @ Number_toString mx \<rparr>],
       m_module = ''ratelimit'' \<rparr>"

text \<open>
  \<open>analyze\<close> reads \<open>analysis.ip\<close> and nothing else of the record.  The source reads the clock
  three times in one call: in \<open>analyze\<close> itself (\<open>t0\<close>), in \<open>isIPBlocked\<close> (\<open>t1\<close>) and in
  \<open>blockIP\<close> (\<open>t2\<close>); \<open>analyze_at\<close> keeps the three readings apart, \<open>analyze\<close> is the call
  in which the clock does not tick.
\<close>

definition analyze_at ::
    "RateLimitModule \<Rightarrow> AnalysisRecord \<Rightarrow> millis \<Rightarrow> millis \<Rightarrow> millis \<Rightarrow> module_result option \<times> RateLimitModule" where
  "analyze_at m analysis t0 t1 t2 =
     (if \<not> enabled m then (None, m)
      else let a = ip analysis in
      case isIPBlocked m a t1 of
        (True, m1) \<Rightarrow> (Some (ip_blocked_result a), m1)
      | (False, m1) \<Rightarrow>
          let r0 = (case requests m1 a of
                      None \<Rightarrow> \<lparr> count = 0, firstRequest = t0, violations = 0 \<rparr>
                    | Some r \<Rightarrow> r);
              r1 = (if t0 - firstRequest r0 > windowMs m1
                    then \<lparr> count = 0, firstRequest = t0, violations = 0 \<rparr> else r0);
              r2 = r1\<lparr>count := count r1 + 1\<rparr>
          in if count r2 > max_requests m1 then
               let r3 = r2\<lparr>violations := violations r2 + 1\<rparr>;
                   m2 = m1\<lparr>requests := (requests m1)(a \<mapsto> r3)\<rparr>
               in if ipBlocking_enabled m2 \<and> violations r3 \<ge> maxViolations m2
                  then (Some (ip_blocked_violations_result a (violations r3)),
                        blockIP m2 a ''Rate limit violations exceeded'' t2)
                  else (Some (rate_limit_exceeded_result (count r3) (max_requests m2)), m2)
             else (None, m1\<lparr>requests := (requests m1)(a \<mapsto> r2)\<rparr>))"


text \<open>The operations of the module, and a run of them from the freshly constructed module.\<close>

datatype rl_op =
    Analyze AnalysisRecord millis millis millis
  | BlockIP ip string millis
  | UnblockIP ip
  | Cleanup millis
  | Reset

fun rl_apply :: "RateLimitModule \<Rightarrow> rl_op \<Rightarrow> RateLimitModule" where
  "rl_apply m (Analyze a t0 t1 t2) = snd (analyze_at m a t0 t1 t2)"
| "rl_apply m (BlockIP a why now) = blockIP m a why now"
| "rl_apply m (UnblockIP a) = unblockIP m a"
| "rl_apply m (Cleanup now) = cleanup m now"
| "rl_apply m Reset = reset m"

definition tables_disjoint :: "RateLimitModule \<Rightarrow> bool" where
  "tables_disjoint m = (dom (requests m) \<inter> dom (blockedIPs m) = {})"


text \<open>The configuration of the rate-limit scenario, and a request from \<open>1.2.3.4\<close>.\<close>

definition scenario_module :: RateLimitModule where
  "scenario_module =
     RateLimitModule_new
       (Some \<lparr> o_enabled = True, o_windowMs = Some 60000, o_max = Some 2 \<rparr>)
       (Some \<lparr> o_ipBlockingEnabled = True, o_blockDuration = Some 60000, o_maxViolations = Some 2 \<rparr>)"


text \<open>Concrete inputs: an ordinary request, and a module whose block of \<open>1.2.3.4\<close>, set at
  time 0 for 1000 ms, ends at time 1000.\<close>

definition plain_request :: AnalysisRecord where
  "plain_request =
     \<lparr> timestamp = 0, ip = ''1.2.3.4'', userAgent = ''Mozilla/5.0 (X11; Linux x86_64)'',
       method = ''GET'', path = ''/'', query = [], body = BodyMissing,
       headers = [], cookies = [], score = 0, threats = [], modules = [],
       anomalyScore = None, anomalyFactors = None, isAnomaly = None, confidence = None \<rparr>"

definition expired_example :: RateLimitModule where
  "expired_example = blockIP (scenario_module\<lparr>blockDuration := 1000\<rparr>) ''1.2.3.4'' ''manual'' 0"




section \<open>Regular expressions with a match cursor\<close>

text \<open>
  The patterns of the XSS module and of the rule engine are sequences of one-character
  atoms, each taken once, optionally (\<open>?\<close>), any number of times greedily (\<open>*\<close>) or lazily
  (\<open>*?\<close>), with alternatives at the top level only; \<open>x+\<close> is written \<open>x x*\<close> and \<open>x{2}\<close> is
  written \<open>x x\<close>.  Texts are sequences of code units below 256.  \<open>match_here\<close> follows the
  backtracking order of ECMAScript and gives the length of the first match that starts at the
  head of the text.
\<close>

datatype atom =
    Chr char
  | Dot
  | OneOf "char list"
  | NoneOf "char list"

datatype quant = Once | Opt | Star | Lazy

type_synonym alternative = "(atom \<times> quant) list"

record RegExp =
  alternatives :: "alternative list"
  ignoreCase :: bool
  global :: bool
  lastIndex :: nat

text \<open>
  Under the flag \<open>i\<close> two code units match when their canonical forms (\<open>toUpperCase\<close>) agree.
  Every pattern character here is ASCII, and no code unit outside ASCII has an ASCII
  canonical form, so only the ASCII letters are folded.
\<close>

definition canonicalize :: "char \<Rightarrow> char" where
  "canonicalize c =
     (case map_of (zip ''abcdefghijklmnopqrstuvwxyz'' ''ABCDEFGHIJKLMNOPQRSTUVWXYZ'') c of
        Some u \<Rightarrow> u
      | None \<Rightarrow> c)"

definition same_char :: "bool \<Rightarrow> char \<Rightarrow> char \<Rightarrow> bool" where
  "same_char ic p c = (if ic then canonicalize p = canonicalize c else p = c)"

text \<open>\<open>.\<close> is every code unit but a line terminator.\<close>

fun atom_ok :: "bool \<Rightarrow> atom \<Rightarrow> char \<Rightarrow> bool" where
  "atom_ok ic (Chr p) c = same_char ic p c"
| "atom_ok ic Dot c = (c \<noteq> CHR 0x0A \<and> c \<noteq> CHR 0x0D)"
| "atom_ok ic (OneOf ps) c = list_ex (\<lambda>p. same_char ic p c) ps"
| "atom_ok ic (NoneOf ps) c = (\<not> list_ex (\<lambda>p. same_char ic p c) ps)"

fun match_here :: "bool \<Rightarrow> alternative \<Rightarrow> string \<Rightarrow> nat option" where
  "match_here ic [] s = Some 0"
| "match_here ic ((a, Once) # r) [] = None"
| "match_here ic ((a, Once) # r) (c # s) =
     (if atom_ok ic a c then map_option Suc (match_here ic r s) else None)"
| "match_here ic ((a, Opt) # r) [] = match_here ic r []"
| "match_here ic ((a, Opt) # r) (c # s) =
     (if atom_ok ic a c
      then (case match_here ic r s of
              Some n \<Rightarrow> Some (Suc n)
            | None \<Rightarrow> match_here ic r (c # s))
      else match_here ic r (c # s))"
| "match_here ic ((a, Star) # r) [] = match_here ic r []"
| "match_here ic ((a, Star) # r) (c # s) =
     (if atom_ok ic a c
      then (case match_here ic ((a, Star) # r) s of
              Some n \<Rightarrow> Some (Suc n)
            | None \<Rightarrow> match_here ic r (c # s))
      else match_here ic r (c # s))"
| "match_here ic ((a, Lazy) # r) [] = match_here ic r []"
| "match_here ic ((a, Lazy) # r) (c # s) =
     (case match_here ic r (c # s) of
        Some n \<Rightarrow> Some n
      | None \<Rightarrow>
          if atom_ok ic a c then map_option Suc (match_here ic ((a, Lazy) # r) s) else None)"

fun match_alternatives :: "bool \<Rightarrow> alternative list \<Rightarrow> string \<Rightarrow> nat option" where
  "match_alternatives ic [] s = None"
| "match_alternatives ic (q # qs) s =
     (case match_here ic q s of Some n \<Rightarrow> Some n | None \<Rightarrow> match_alternatives ic qs s)"

text \<open>
  The search of \<open>exec\<close>: the first index at or after \<open>i\<close> where a match starts, with the index
  where it ends.  \<open>s\<close> is the text from index \<open>i\<close> on.
\<close>

fun search :: "bool \<Rightarrow> alternative list \<Rightarrow> string \<Rightarrow> nat \<Rightarrow> (nat \<times> nat) option" where
  "search ic alts [] i =
     (case match_alternatives ic alts [] of Some n \<Rightarrow> Some (i, i + n) | None \<Rightarrow> None)"
| "search ic alts (c # s) i =
     (case match_alternatives ic alts (c # s) of
        Some n \<Rightarrow> Some (i, i + n)
      | None \<Rightarrow> search ic alts s (Suc i))"

text \<open>
  \<open>RegExp.prototype.test\<close>.  A global expression starts at its \<open>lastIndex\<close>; a failure (also
  when \<open>lastIndex\<close> is beyond the text) sets \<open>lastIndex\<close> to 0 and a success sets it to the
  end of the match.  An expression that is not global starts at 0 and keeps its \<open>lastIndex\<close>.
\<close>

definition RegExp_test :: "RegExp \<Rightarrow> string \<Rightarrow> bool \<times> RegExp" where
  "RegExp_test re text =
     (let start = (if global re then lastIndex re else 0) in
      if start > length text then (False, if global re then re\<lparr>lastIndex := 0\<rparr> else re)
      else case search (ignoreCase re) (alternatives re) (drop start text) start of
             None \<Rightarrow> (False, if global re then re\<lparr>lastIndex := 0\<rparr> else re)
           | Some (b, e) \<Rightarrow> (True, if global re then re\<lparr>lastIndex := e\<rparr> else re))"

text \<open>A literal with the flags \<open>gi\<close>, as the source writes every pattern, cursor at 0.\<close>

definition gi :: "alternative list \<Rightarrow> RegExp" where
  "gi alts = \<lparr> alternatives = alts, ignoreCase = True, global = True, lastIndex = 0 \<rparr>"

text \<open>
  Building blocks of the literals: a literal string, \<open>\s\<close> (the white space and line
  terminators among the code units below 256), the hexadecimal digits.
\<close>

definition lit :: "string \<Rightarrow> alternative" where
  "lit s = map (\<lambda>c. (Chr c, Once)) s"

definition whitespace :: atom where
  "whitespace = OneOf [CHR 0x09, CHR 0x0A, CHR 0x0B, CHR 0x0C, CHR 0x0D, CHR 0x20, CHR 0xA0]"

definition hex_digit :: atom where
  "hex_digit = OneOf ''0123456789abcdefABCDEF''"

text \<open>String operations of the scanners.\<close>

definition toLowerCase :: "string \<Rightarrow> string" where
  "toLowerCase s =
     map (\<lambda>c. case map_of (zip ''ABCDEFGHIJKLMNOPQRSTUVWXYZ'' ''abcdefghijklmnopqrstuvwxyz'') c of
                 Some l \<Rightarrow> l
               | None \<Rightarrow> c) s"

fun startsWith :: "string \<Rightarrow> string \<Rightarrow> bool" where
  "startsWith s [] = True"
| "startsWith [] (p # ps) = False"
| "startsWith (c # s) (p # ps) = (c = p \<and> startsWith s ps)"

fun String_includes :: "string \<Rightarrow> string \<Rightarrow> bool" where
  "String_includes [] needle = startsWith [] needle"
| "String_includes (c # s) needle = (startsWith (c # s) needle \<or> String_includes s needle)"

fun join :: "string list \<Rightarrow> string \<Rightarrow> string" where
  "join [] sep = []"
| "join [t] sep = t"
| "join (t # u # ts) sep = t @ sep @ join (u # ts) sep"

text \<open>\<open>text.substring(0, 100) + (text.length > 100 ? '...' : '')\<close>\<close>

definition excerpt :: "string \<Rightarrow> string" where
  "excerpt text = take 100 text @ (if length text > 100 then ''...'' else [])"

text \<open>
  \<open>extractSearchTexts\<close>, the same in the XSS module and in the rule engine: the path, the
  string values of the query, the body (a string that is not empty, or the serialised
  object), the string values of the headers and of the cookies.
\<close>

fun string_values :: "(string \<times> js_field) list \<Rightarrow> string list" where
  "string_values [] = []"
| "string_values ((k, FString v) # kvs) = v # string_values kvs"
| "string_values ((k, FOther) # kvs) = string_values kvs"

definition extractSearchTexts :: "AnalysisRecord \<Rightarrow> string list" where
  "extractSearchTexts analysis =
     [path analysis]
     @ string_values (query analysis)
     @ (case body analysis of
          BodyMissing \<Rightarrow> []
        | BodyString s \<Rightarrow> (if s = [] then [] else [s])
        | BodyObject json \<Rightarrow> [json])
     @ string_values (headers analysis)
     @ string_values (cookies analysis)"


section \<open>XSS module\<close>

record xss_pattern =
  p_name :: string
  p_pattern :: RegExp
  p_score :: real
  p_description :: string

record XSSModule =
  patterns :: "xss_pattern list"

definition xp :: "string \<Rightarrow> alternative \<Rightarrow> real \<Rightarrow> string \<Rightarrow> xss_pattern" where
  "xp n alt sc d = \<lparr> p_name = n, p_pattern = gi [alt], p_score = sc, p_description = d \<rparr>"

text \<open>\<open>loadXSSPatterns\<close>: the literals of the source, in its order.\<close>

definition loadXSSPatterns :: "xss_pattern list" where
  "loadXSSPatterns =
   [ xp ''script-tag''
       (lit ''<script'' @ [(NoneOf ''>'', Star)] @ lit ''>'' @ [(Dot, Lazy)] @ lit ''</script>'')
       3 ''Script tag injection'',
     xp ''script-src''
       (lit ''<script'' @ [(NoneOf ''>'', Star)] @ lit ''src'' @ [(whitespace, Star)] @ lit ''='')
       2 ''External script source'',
     xp ''onload-event'' (lit ''onload'' @ [(whitespace, Star)] @ lit ''='')
       2 ''onload event handler'',
     xp ''onclick-event'' (lit ''onclick'' @ [(whitespace, Star)] @ lit ''='')
       2 ''onclick event handler'',
     xp ''onerror-event'' (lit ''onerror'' @ [(whitespace, Star)] @ lit ''='')
       2 ''onerror event handler'',
     xp ''javascript-url'' (lit ''javascript:'') 3 ''JavaScript URL scheme'',
     xp ''vbscript-url'' (lit ''vbscript:'') 3 ''VBScript URL scheme'',
     xp ''expression'' (lit ''expression'' @ [(whitespace, Star)] @ lit ''('')
       2 ''CSS expression'',
     xp ''iframe-src''
       (lit ''<iframe'' @ [(NoneOf ''>'', Star)] @ lit ''src'' @ [(whitespace, Star)] @ lit ''='')
       2 ''Iframe with external source'',
     xp ''object-data''
       (lit ''<object'' @ [(NoneOf ''>'', Star)] @ lit ''data'' @ [(whitespace, Star)] @ lit ''='')
       2 ''Object with external data'',
     xp ''embed-src''
       (lit ''<embed'' @ [(NoneOf ''>'', Star)] @ lit ''src'' @ [(whitespace, Star)] @ lit ''='')
       2 ''Embed with external source'',
     xp ''form-action''
       (lit ''<form'' @ [(NoneOf ''>'', Star)] @ lit ''action'' @ [(whitespace, Star)] @ lit ''='')
       1 ''Form with action attribute'',
     xp ''meta-refresh''
       (lit ''<meta'' @ [(NoneOf ''>'', Star)] @ lit ''http-equiv'' @ [(whitespace, Star)]
        @ lit ''='' @ [(whitespace, Star), (OneOf [CHR 0x22, CHR 0x27], Once)] @ lit ''refresh''
        @ [(OneOf [CHR 0x22, CHR 0x27], Once)])
       2 ''Meta refresh redirect'',
     xp ''base-href''
       (lit ''<base'' @ [(NoneOf ''>'', Star)] @ lit ''href'' @ [(whitespace, Star)] @ lit ''='')
       2 ''Base tag with href'',
     xp ''link-href''
       (lit ''<link'' @ [(NoneOf ''>'', Star)] @ lit ''href'' @ [(whitespace, Star)] @ lit ''='')
       1 ''Link with href attribute'',
     xp ''style-tag''
       (lit ''<style'' @ [(NoneOf ''>'', Star)] @ lit ''>'' @ [(Dot, Lazy)] @ lit ''</style>'')
       1 ''Style tag injection'',
     xp ''alert-payload'' (lit ''alert'' @ [(whitespace, Star)] @ lit ''('')
       2 ''Alert function call'',
     xp ''confirm-payload'' (lit ''confirm'' @ [(whitespace, Star)] @ lit ''('')
       2 ''Confirm function call'',
     xp ''prompt-payload'' (lit ''prompt'' @ [(whitespace, Star)] @ lit ''('')
       2 ''Prompt function call'',
     xp ''document-cookie'' (lit ''document.cookie'') 3 ''Document cookie access'',
     xp ''document-write'' (lit ''document.write'') 2 ''Document write'',
     xp ''innerHTML'' (lit ''innerHTML'' @ [(whitespace, Star)] @ lit ''='')
       2 ''innerHTML assignment'',
     xp ''outerHTML'' (lit ''outerHTML'' @ [(whitespace, Star)] @ lit ''='')
       2 ''outerHTML assignment'',
     xp ''html-encoded''
       (lit ''&#'' @ [(Chr CHR ''x'', Opt), (hex_digit, Once), (hex_digit, Star)] @ lit '';'')
       1 ''HTML encoded characters'',
     xp ''url-encoded'' (lit ''%'' @ [(hex_digit, Once), (hex_digit, Once)])
       1 ''URL encoded characters'',
     xp ''svg-script''
       (lit ''<svg'' @ [(NoneOf ''>'', Star)] @ lit ''>'' @ [(Dot, Lazy)] @ lit ''<script'')
       3 ''SVG with script tag'',
     xp ''data-uri-javascript'' (lit ''data:text/html'' @ [(Dot, Star)] @ lit ''javascript'')
       3 ''Data URI with JavaScript'' ]"

definition XSSModule_new :: XSSModule where
  "XSSModule_new = \<lparr> patterns = loadXSSPatterns \<rparr>"

definition pattern_threat :: "xss_pattern \<Rightarrow> string \<Rightarrow> threat" where
  "pattern_threat p text =
     \<lparr> t_type = ''xss'', t_pattern = p_name p, t_description = p_description p,
       t_score = p_score p, t_matched = excerpt text \<rparr>"

text \<open>
  The inner loop: one pattern against every text, in order.  \<open>test\<close> is called on the
  pattern's own expression, whose cursor stays where the call leaves it.
\<close>

fun test_texts :: "xss_pattern \<Rightarrow> string list \<Rightarrow> threat list \<times> xss_pattern" where
  "test_texts p [] = ([], p)"
| "test_texts p (text # texts) =
     (case RegExp_test (p_pattern p) text of
        (hit, re) \<Rightarrow>
          (case test_texts (p\<lparr>p_pattern := re\<rparr>) texts of
             (found, p') \<Rightarrow> ((if hit then [pattern_threat p text] else []) @ found, p')))"

text \<open>The outer loop: every pattern in order.\<close>

fun scan_patterns :: "xss_pattern list \<Rightarrow> string list \<Rightarrow> threat list \<times> xss_pattern list" where
  "scan_patterns [] texts = ([], [])"
| "scan_patterns (p # ps) texts =
     (case test_texts p texts of
        (found, p1) \<Rightarrow>
          (case scan_patterns ps texts of (others, ps1) \<Rightarrow> (found @ others, p1 # ps1)))"

definition checkCombinations :: "string list \<Rightarrow> threat list" where
  "checkCombinations searchTexts =
     (let text = toLowerCase (join searchTexts '' '') in
      (if String_includes text ''<script'' \<and> (String_includes text ''alert'' \<or> String_includes text ''document'')
       then [\<lparr> t_type = ''xss'', t_pattern = ''script-suspicious-content'',
               t_description = ''Script tag with suspicious content'', t_score = 4,
               t_matched = ''Script tag with alert/document access'' \<rparr>]
       else [])
      @ (if (String_includes text ''onclick'' \<or> String_includes text ''onload'') \<and> String_includes text ''javascript:''
         then [\<lparr> t_type = ''xss'', t_pattern = ''event-handler-javascript'',
                 t_description = ''Event handler with JavaScript URL'', t_score = 4,
                 t_matched = ''Event handler with JavaScript URL'' \<rparr>]
         else [])
      @ (if String_includes text ''&#x'' \<and> (String_includes text ''script'' \<or> String_includes text ''alert'')
         then [\<lparr> t_type = ''xss'', t_pattern = ''encoded-payload'',
                 t_description = ''Encoded XSS payload'', t_score = 3,
                 t_matched = ''Encoded XSS payload detected'' \<rparr>]
         else []))"

text \<open>
  \<open>analyze\<close> of the XSS module.  It returns its result and the module, whose expressions
  keep the cursors the scan left.
\<close>

definition XSSModule_analyze :: "XSSModule \<Rightarrow> AnalysisRecord \<Rightarrow> module_result option \<times> XSSModule" where
  "XSSModule_analyze xm analysis =
     (let searchTexts = extractSearchTexts analysis in
      case scan_patterns (patterns xm) searchTexts of
        (found, ps') \<Rightarrow>
          let combinationThreats = checkCombinations searchTexts;
              all_threats = found @ combinationThreats;
              totalScore = sum_list (map t_score found) + sum_list (map t_score combinationThreats)
          in ((if all_threats \<noteq> []
               then Some \<lparr> m_score = totalScore, m_threats = all_threats, m_module = ''xss'' \<rparr>
               else None),
              xm\<lparr>patterns := ps'\<rparr>))"

text \<open>The request \<open>GET /javascript:\<close>, with no query, body, headers or cookies.\<close>

definition javascript_path :: AnalysisRecord where
  "javascript_path = plain_request\<lparr>path := ''/javascript:''\<rparr>"


section \<open>Anomaly scorer: the result of \<open>calculateScore\<close>\<close>

text \<open>
  \<open>calculateScore\<close> calls eight scorers and assembles their scores.  The scorers read the
  baseline, the clock and the request; what each returns for the request at hand is an input
  here.
\<close>

record factor_scores =
  frequencyScore :: real
  userAgentScore :: real
  pathScore :: real
  queryScore :: real
  bodySizeScore :: real
  headerScore :: real
  timeScore :: real
  geoScore :: real

record anomaly_result =
  totalScore :: real
  factors :: "anomaly_factor list"
  ar_isAnomaly :: js_value
  ar_confidence :: real

text \<open>\<open>if (s > 0) { totalScore += s; factors.push({ type, score: s }) }\<close>\<close>

definition add_factor :: "real \<times> anomaly_factor list \<Rightarrow> string \<Rightarrow> real \<Rightarrow> real \<times> anomaly_factor list" where
  "add_factor acc ty s =
     (if s > 0 then (fst acc + s, snd acc @ [\<lparr> f_type = ty, f_score = s \<rparr>]) else acc)"

definition collect_factors :: "factor_scores \<Rightarrow> real \<times> anomaly_factor list" where
  "collect_factors fs =
     add_factor (add_factor (add_factor (add_factor (add_factor (add_factor (add_factor (add_factor
       (0, []) ''frequency'' (frequencyScore fs)) ''userAgent'' (userAgentScore fs))
       ''path'' (pathScore fs)) ''query'' (queryScore fs)) ''bodySize'' (bodySizeScore fs))
       ''header'' (headerScore fs)) ''time'' (timeScore fs)) ''geographic'' (geoScore fs)"

text \<open>
  \<open>Math.round\<close> rounds to the nearest integer, a tie upwards.  Here it works on exact
  reals; the source multiplies a double by 100 first, and that product can fall on the other
  side of a tie (for the total 1.005 the source gives 1, exact arithmetic 1.01).  The
  statements below apply it to totals for which the two agree, or hold for whatever value
  \<open>calculateScore\<close> returned.
\<close>

definition Math_round :: "real \<Rightarrow> int" where
  "Math_round x = \<lfloor>x + 1 / 2\<rfloor>"

definition calculateConfidence :: "anomaly_factor list \<Rightarrow> real" where
  "calculateConfidence fl =
     (if fl = [] then 0
      else min ((sum_list (map f_score fl) / real (length fl)) * (1 / 10)) 1)"

text \<open>\<open>a || b\<close>: \<open>a\<close> when \<open>a\<close> is truthy, else \<open>b\<close>.\<close>

fun truthy :: "js_value \<Rightarrow> bool" where
  "truthy (JBool b) = b"
| "truthy (JNum x) = (x \<noteq> 0)"

definition js_or :: "js_value \<Rightarrow> js_value \<Rightarrow> js_value" where
  "js_or a b = (if truthy a then a else b)"

text \<open>A comparison with \<open>undefined\<close> is false.\<close>

definition greater_than :: "real \<Rightarrow> real option \<Rightarrow> bool" where
  "greater_than x t = (case t of None \<Rightarrow> False | Some v \<Rightarrow> x > v)"

text \<open>
  \<open>calculateScore\<close>, for the configured \<open>anomalyThreshold\<close>.  In
  \<open>totalScore > this.config.anomalyThreshold || 5\<close> the comparison binds tighter than \<open>||\<close>.
\<close>

definition calculateScore :: "real option \<Rightarrow> factor_scores \<Rightarrow> anomaly_result" where
  "calculateScore anomalyThreshold_cfg fs =
     (if (case anomalyThreshold_cfg of None \<Rightarrow> False | Some t \<Rightarrow> t > 100)
      then \<lparr> totalScore = 0, factors = [], ar_isAnomaly = JBool False, ar_confidence = 0 \<rparr>
      else case collect_factors fs of
        (tot, fl) \<Rightarrow>
          \<lparr> totalScore = real_of_int (Math_round (tot * 100)) / 100,
            factors = fl,
            ar_isAnomaly = js_or (JBool (greater_than tot anomalyThreshold_cfg)) (JNum 5),
            ar_confidence = calculateConfidence fl \<rparr>)"

text \<open>A request none of whose factors scores.\<close>

definition quiet :: factor_scores where
  "quiet =
     \<lparr> frequencyScore = 0, userAgentScore = 0, pathScore = 0, queryScore = 0,
       bodySizeScore = 0, headerScore = 0, timeScore = 0, geoScore = 0 \<rparr>"

section \<open>Request analysis\<close>

record http_request =
  req_ip :: string
  req_userAgent :: string
  req_method :: string
  req_path :: string
  req_query :: "(string \<times> js_field) list"
  req_body :: js_body
  req_headers :: "(string \<times> js_field) list"
  req_cookies :: "(string \<times> js_field) list"

text \<open>The object literal with which \<open>analyzeRequest\<close> starts.\<close>

definition new_analysis :: "http_request \<Rightarrow> millis \<Rightarrow> AnalysisRecord" where
  "new_analysis req now =
     \<lparr> timestamp = now, ip = req_ip req, userAgent = req_userAgent req,
       method = req_method req, path = req_path req, query = req_query req,
       body = req_body req, headers = req_headers req, cookies = req_cookies req,
       score = 0, threats = [], modules = [],
       anomalyScore = None, anomalyFactors = None, isAnomaly = None, confidence = None \<rparr>"

text \<open>
  One turn of the loop over \<open>config.modules\<close>: the module's name and what its \<open>analyze\<close>
  returned (\<open>None\<close> is null).  A configured module that did not load has no turn.
\<close>

definition run_module :: "AnalysisRecord \<Rightarrow> string \<times> module_result option \<Rightarrow> AnalysisRecord" where
  "run_module analysis turn =
     (case snd turn of
        None \<Rightarrow> analysis
      | Some moduleResult \<Rightarrow>
          analysis\<lparr> score := score analysis + m_score moduleResult,
                    threats := threats analysis @ m_threats moduleResult,
                    modules := modules analysis @ [fst turn] \<rparr>)"

text \<open>
  \<open>analyzeRequest\<close>.  \<open>analyzeRequest_given\<close> is its body for the result
  \<open>anomalyResult\<close> that the call of \<open>calculateScore\<close> returned.
\<close>

definition analyzeRequest_given ::
    "anomaly_result \<Rightarrow> http_request \<Rightarrow> millis \<Rightarrow> (string \<times> module_result option) list \<Rightarrow>
     AnalysisRecord" where
  "analyzeRequest_given anomalyResult req now turns =
     (let analysis = foldl run_module (new_analysis req now) turns
      in analysis\<lparr> anomalyScore := Some (totalScore anomalyResult),
                   anomalyFactors := Some (factors anomalyResult),
                   isAnomaly := Some (ar_isAnomaly anomalyResult),
                   confidence := Some (ar_confidence anomalyResult),
                   score := score analysis + totalScore anomalyResult \<rparr>)"

definition analyzeRequest ::
    "real option \<Rightarrow> http_request \<Rightarrow> millis \<Rightarrow> (string \<times> module_result option) list \<Rightarrow>
     factor_scores \<Rightarrow> AnalysisRecord" where
  "analyzeRequest anomalyThreshold_cfg req now turns fs =
     analyzeRequest_given (calculateScore anomalyThreshold_cfg fs) req now turns"

section \<open>Rule engine\<close>

record rule =
  r_id :: string
  r_name :: string
  r_pattern :: RegExp
  r_score :: real
  r_module :: string
  r_description :: string

record RuleEngine =
  rules :: "rule list"
  threshold :: real

definition loadBuiltInRules :: "rule list" where
  "loadBuiltInRules =
   [ \<lparr> r_id = ''xss-script-tag'', r_name = ''XSS Script Tag Detection'',
       r_pattern = gi [lit ''<script'' @ [(NoneOf ''>'', Star)] @ lit ''>'' @ [(Dot, Lazy)]
                       @ lit ''</script>''],
       r_score = 3, r_module = ''xss'',
       r_description = ''Detects script tag injection attempts'' \<rparr>,
     \<lparr> r_id = ''xss-javascript-url'', r_name = ''XSS JavaScript URL Detection'',
       r_pattern = gi [lit ''javascript:''],
       r_score = 2, r_module = ''xss'',
       r_description = ''Detects javascript: URL schemes'' \<rparr>,
     \<lparr> r_id = ''sqli-union'', r_name = ''SQL Union Injection'',
       r_pattern = gi [lit ''union'' @ [(whitespace, Once), (whitespace, Star)] @ lit ''select''],
       r_score = 4, r_module = ''sqli'',
       r_description = ''Detects UNION SELECT injection attempts'' \<rparr>,
     \<lparr> r_id = ''sqli-or-1-1'', r_name = ''SQL OR 1=1 Injection'',
       r_pattern = gi [lit ''or'' @ [(whitespace, Once), (whitespace, Star)] @ lit ''1''
                       @ [(whitespace, Star)] @ lit ''='' @ [(whitespace, Star)] @ lit ''1''],
       r_score = 3, r_module = ''sqli'',
       r_description = ''Detects OR 1=1 injection attempts'' \<rparr>,
     \<lparr> r_id = ''sqli-drop-table'', r_name = ''SQL DROP TABLE Injection'',
       r_pattern = gi [lit ''drop'' @ [(whitespace, Once), (whitespace, Star)] @ lit ''table''],
       r_score = 5, r_module = ''sqli'',
       r_description = ''Detects DROP TABLE injection attempts'' \<rparr>,
     \<lparr> r_id = ''nosqli-operator'', r_name = ''NoSQL Operator Injection'',
       r_pattern = gi [lit ''$where'', lit ''$ne'', lit ''$gt'', lit ''$lt'', lit ''$regex''],
       r_score = 3, r_module = ''nosqli'',
       r_description = ''Detects NoSQL operator injection'' \<rparr> ]"

text \<open>
  The constructor: \<open>config.threshold || 10\<close>, the built-in rules, then \<open>config.rules\<close> when
  given.  \<open>setRuleManager\<close> replaces the rules by the enabled rules of the rule manager.
\<close>

definition RuleEngine_new :: "real option \<Rightarrow> rule list option \<Rightarrow> RuleEngine" where
  "RuleEngine_new threshold_cfg rules_cfg =
     \<lparr> rules = loadBuiltInRules @ (case rules_cfg of None \<Rightarrow> [] | Some rs \<Rightarrow> rs),
       threshold = or_default threshold_cfg 10 \<rparr>"

definition setRuleManager :: "RuleEngine \<Rightarrow> rule list \<Rightarrow> RuleEngine" where
  "setRuleManager e enabledRules = e\<lparr>rules := enabledRules\<rparr>"


text \<open>
  \<open>evaluateRule\<close>: \<open>some\<close> over the texts stops at the first hit; before each \<open>test\<close> the
  cursor of the rule's expression is set to 0.
\<close>

fun some_test :: "RegExp \<Rightarrow> string list \<Rightarrow> bool \<times> RegExp" where
  "some_test re [] = (False, re)"
| "some_test re (text # texts) =
     (case RegExp_test (re\<lparr>lastIndex := 0\<rparr>) text of
        (True, re1) \<Rightarrow> (True, re1)
      | (False, re1) \<Rightarrow> some_test re1 texts)"

definition evaluateRule :: "rule \<Rightarrow> AnalysisRecord \<Rightarrow> bool \<times> rule" where
  "evaluateRule r analysis =
     (case some_test (r_pattern r) (extractSearchTexts analysis) of
        (hit, re) \<Rightarrow> (hit, r\<lparr>r_pattern := re\<rparr>))"

text \<open>The loop over the rules: the rules that matched, and every rule as the loop leaves it.\<close>

fun scan_rules :: "rule list \<Rightarrow> AnalysisRecord \<Rightarrow> rule list \<times> rule list" where
  "scan_rules [] analysis = ([], [])"
| "scan_rules (r # rs) analysis =
     (case evaluateRule r analysis of
        (hit, r1) \<Rightarrow>
          (case scan_rules rs analysis of
             (matched, rs1) \<Rightarrow> ((if hit then [r1] else []) @ matched, r1 # rs1)))"

text \<open>
  What the loop is to compute.  A rule matches a record when its pattern occurs in one of
  the search texts, searched from the start of the text; \<open>forget_cursor\<close> is a rule
  without the cursor that the last \<open>test\<close> left in its expression.
\<close>

definition rule_matches :: "rule \<Rightarrow> AnalysisRecord \<Rightarrow> bool" where
  "rule_matches r analysis =
     list_ex (\<lambda>text. search (ignoreCase (r_pattern r)) (alternatives (r_pattern r)) text 0 \<noteq> None)
       (extractSearchTexts analysis)"

definition forget_cursor :: "rule \<Rightarrow> rule" where
  "forget_cursor r = r\<lparr>r_pattern := (r_pattern r)\<lparr>lastIndex := 0\<rparr>\<rparr>"

datatype action = Allow | Block

text \<open>
  The result of \<open>evaluate\<close>.  The reason is null or the message
  \<open>Threat score s exceeds threshold t\<close>, kept as the two numbers it prints.  The request id is
  made from the clock and a random number and is an input.
\<close>

record evaluation =
  res_action :: action
  res_score :: real
  res_reason :: "(real \<times> real) option"
  res_requestId :: string
  res_analysis :: AnalysisRecord
  matchedRules :: "rule list"

definition evaluate :: "RuleEngine \<Rightarrow> AnalysisRecord \<Rightarrow> string \<Rightarrow> evaluation \<times> RuleEngine" where
  "evaluate e analysis requestId =
     (let checked = (if score analysis \<ge> threshold e
                     then (Block, Some (score analysis, threshold e))
                     else (Allow, None))
      in case scan_rules (rules e) analysis of
        (matched, rs1) \<Rightarrow>
          let tot = foldl (\<lambda>s r. s + r_score r) (score analysis) matched;
              rechecked = (if tot \<ge> threshold e then (Block, Some (tot, threshold e))
                           else checked)
          in (\<lparr> res_action = fst rechecked, res_score = tot, res_reason = snd rechecked,
                res_requestId = requestId, res_analysis = analysis, matchedRules = matched \<rparr>,
              e\<lparr>rules := rs1\<rparr>))"

text \<open>The results that the modules returned, in order; null results are left out.\<close>

fun returned :: "(string \<times> module_result option) list \<Rightarrow> module_result list" where
  "returned [] = []"
| "returned ((n, None) # turns) = returned turns"
| "returned ((n, Some r) # turns) = r # returned turns"


section \<open>Adaptive learning\<close>

datatype phase = Collecting | Analyzing | Adapting | Protecting

record requestData =
  rd_timestamp :: millis
  rd_ip :: string
  rd_userAgent :: string
  rd_method :: string
  rd_path :: string
  rd_query :: "(string \<times> js_field) list"
  rd_body :: js_body
  rd_headers :: "(string \<times> js_field) list"
  rd_cookies :: "(string \<times> js_field) list"
  rd_score :: real
  rd_threats :: "threat list"
  rd_modules :: "string list"

record threatEntry =
  te_timestamp :: millis
  te_ip :: string
  te_threats :: "threat list"
  te_score :: real

text \<open>
  The learner.  \<open>ld_requests\<close> and \<open>ld_threats\<close> are \<open>learningData.requests\<close> and
  \<open>learningData.threats\<close>; \<open>pendingTimers\<close> are the phase transitions that \<open>setTimeout\<close>
  has scheduled and that have not fired.  The statistics that the phase transitions compute
  from the buffers are not part of the model.
\<close>

record AdaptiveLearning =
  isLearning :: bool
  learningPeriod :: int
  startTime :: millis
  endTime :: millis
  currentPhase :: phase
  ld_requests :: "requestData list"
  ld_threats :: "threatEntry list"
  learningProgress :: real
  pendingTimers :: "phase list"

definition setupPhaseTransitions :: "AdaptiveLearning \<Rightarrow> AdaptiveLearning" where
  "setupPhaseTransitions al = al\<lparr>pendingTimers := pendingTimers al @ [Analyzing, Adapting, Protecting]\<rparr>"

definition startLearning :: "AdaptiveLearning \<Rightarrow> AdaptiveLearning" where
  "startLearning al = setupPhaseTransitions al"

definition AdaptiveLearning_new :: "bool \<Rightarrow> int option \<Rightarrow> millis \<Rightarrow> AdaptiveLearning" where
  "AdaptiveLearning_new adaptiveLearning_cfg learningPeriod_cfg now =
     (let period = or_default learningPeriod_cfg 7;
          al = \<lparr> isLearning = adaptiveLearning_cfg,
                 learningPeriod = period,
                 startTime = now,
                 endTime = now + period * 24 * 60 * 60 * 1000,
                 currentPhase = (if adaptiveLearning_cfg then Collecting else Protecting),
                 ld_requests = [], ld_threats = [], learningProgress = 0,
                 pendingTimers = [] \<rparr>
      in if isLearning al then startLearning al else al)"

definition finalizeLearning :: "AdaptiveLearning \<Rightarrow> AdaptiveLearning" where
  "finalizeLearning al = al\<lparr>isLearning := False, learningProgress := 1\<rparr>"

definition transitionToPhase :: "AdaptiveLearning \<Rightarrow> phase \<Rightarrow> AdaptiveLearning" where
  "transitionToPhase al newPhase =
     (let al1 = al\<lparr>currentPhase := newPhase\<rparr>
      in if newPhase = Protecting then finalizeLearning al1 else al1)"

definition requestData_of :: "AnalysisRecord \<Rightarrow> requestData" where
  "requestData_of analysis =
     \<lparr> rd_timestamp = timestamp analysis, rd_ip = ip analysis,
       rd_userAgent = userAgent analysis, rd_method = method analysis,
       rd_path = path analysis, rd_query = query analysis, rd_body = body analysis,
       rd_headers = headers analysis, rd_cookies = cookies analysis,
       rd_score = score analysis, rd_threats = threats analysis,
       rd_modules = modules analysis \<rparr>"

definition threatEntry_of :: "AnalysisRecord \<Rightarrow> threatEntry" where
  "threatEntry_of analysis =
     \<lparr> te_timestamp = timestamp analysis, te_ip = ip analysis,
       te_threats = threats analysis, te_score = score analysis \<rparr>"

text \<open>\<open>xs.slice(-n)\<close>: the last \<open>n\<close> elements.\<close>

definition slice_last :: "nat \<Rightarrow> 'a list \<Rightarrow> 'a list" where
  "slice_last n xs = drop (length xs - n) xs"

definition recordRequest :: "AdaptiveLearning \<Rightarrow> AnalysisRecord \<Rightarrow> AdaptiveLearning" where
  "recordRequest al analysis =
     (let pushed = ld_requests al @ [requestData_of analysis];
          kept = (if length pushed > 10000 then slice_last 10000 pushed else pushed)
      in al\<lparr> ld_requests := kept,
              ld_threats := (if threats analysis \<noteq> []
                             then ld_threats al @ [threatEntry_of analysis]
                             else ld_threats al) \<rparr>)"

definition updateLearningProgress :: "AdaptiveLearning \<Rightarrow> millis \<Rightarrow> AdaptiveLearning" where
  "updateLearningProgress al now =
     al\<lparr>learningProgress :=
          min (real_of_int (now - startTime al) / real_of_int (endTime al - startTime al)) 1\<rparr>"

record learning_result =
  lr_action :: action
  lr_reason :: string
  lr_learningPhase :: "phase option"
  lr_progress :: "real option"

definition processRequest ::
    "AdaptiveLearning \<Rightarrow> AnalysisRecord \<Rightarrow> millis \<Rightarrow> learning_result \<times> AdaptiveLearning" where
  "processRequest al analysis now =
     (if \<not> isLearning al
      then (\<lparr> lr_action = Allow, lr_reason = ''Not in learning mode'',
               lr_learningPhase = None, lr_progress = None \<rparr>, al)
      else let al1 = updateLearningProgress (recordRequest al analysis) now
           in (\<lparr> lr_action = Allow, lr_reason = ''Learning mode - collecting data'',
                  lr_learningPhase = Some (currentPhase al1),
                  lr_progress = Some (learningProgress al1) \<rparr>, al1))"

text \<open>An analysed request that carries one threat, and \<open>n\<close> of them recorded in a row.\<close>

definition threat_request :: AnalysisRecord where
  "threat_request =
     plain_request\<lparr> score := 3,
                     threats := [\<lparr> t_type = ''xss'', t_pattern = ''javascript-url'',
                                    t_description = ''JavaScript URL scheme'', t_score = 3,
                                    t_matched = ''/javascript:'' \<rparr>],
                     modules := [''xss''] \<rparr>"

definition collecting_learner :: AdaptiveLearning where
  "collecting_learner = AdaptiveLearning_new True (Some 7) 0"

section \<open>Middleware\<close>

record waf_config =
  cfg_adaptiveLearning :: bool
  cfg_learningPeriod :: "int option"
  cfg_dryRun :: bool
  cfg_skipPaths :: "string list option"
  cfg_threshold :: "real option"
  cfg_rules :: "rule list option"
  cfg_anomalyThreshold :: "real option"

record WAFMiddleware =
  config :: waf_config
  ruleEngine :: RuleEngine
  adaptiveLearning :: AdaptiveLearning
  isLearningMode :: bool

text \<open>
  The constructor of the middleware, at time \<open>now\<close>, on the engine that \<open>createWAF\<close> built
  from the same configuration.  \<open>enabledRules\<close> is what the rule manager hands to
  \<open>setRuleManager\<close>.  \<open>isLearningMode\<close> is computed here, once.
\<close>

definition WAFMiddleware_new :: "waf_config \<Rightarrow> rule list \<Rightarrow> millis \<Rightarrow> WAFMiddleware" where
  "WAFMiddleware_new cfg enabledRules now =
     (let al = AdaptiveLearning_new (cfg_adaptiveLearning cfg) (cfg_learningPeriod cfg) now
      in \<lparr> config = cfg,
           ruleEngine = setRuleManager (RuleEngine_new (cfg_threshold cfg) (cfg_rules cfg)) enabledRules,
           adaptiveLearning = al,
           isLearningMode = (cfg_adaptiveLearning cfg \<and> isLearning al) \<rparr>)"

definition shouldSkipPath :: "waf_config \<Rightarrow> string \<Rightarrow> bool" where
  "shouldSkipPath cfg p =
     list_ex (\<lambda>skipPath. startsWith p skipPath)
       (case cfg_skipPaths cfg of
          None \<Rightarrow> [''/health'', ''/metrics'', ''/favicon.ico'']
        | Some ps \<Rightarrow> ps)"

datatype waf_event =
    ThreatDetected string AnalysisRecord
  | RequestBlocked evaluation

text \<open>The body of the 403 response.\<close>

record forbidden_body =
  fb_reason :: "(real \<times> real) option"
  fb_requestId :: string
  fb_score :: real
  fb_anomalyScore :: "real option"
  fb_threats :: "string list"

datatype verdict = Next | Forbidden forbidden_body

definition handleLearningMode ::
    "WAFMiddleware \<Rightarrow> AnalysisRecord \<Rightarrow> millis \<Rightarrow> waf_event list \<times> WAFMiddleware" where
  "handleLearningMode w analysis now =
     (case processRequest (adaptiveLearning w) analysis now of
        (learningResult, al1) \<Rightarrow>
          ((if score analysis > 0 then [ThreatDetected ''learning'' analysis] else []),
           w\<lparr>adaptiveLearning := al1\<rparr>))"

definition handleBlock :: "evaluation \<Rightarrow> verdict \<times> waf_event list" where
  "handleBlock decision =
     (Forbidden \<lparr> fb_reason = res_reason decision,
                  fb_requestId = res_requestId decision,
                  fb_score = score (res_analysis decision),
                  fb_anomalyScore = anomalyScore (res_analysis decision),
                  fb_threats = map t_description (threats (res_analysis decision)) \<rparr>,
      [RequestBlocked decision])"

text \<open>
  The middleware function on one request.  \<open>turns\<close> and \<open>fs\<close> are what the detection
  modules and the anomaly scorers return for this request, \<open>requestId\<close> is the id the engine
  generates.  The result is the verdict (\<open>next()\<close> or the 403 response), the events emitted
  and the middleware afterwards.  Statistics and metrics are not part of the model, and
  nothing in the model throws, so the \<open>catch\<close> branch of the source is never taken.
\<close>

definition middleware ::
    "WAFMiddleware \<Rightarrow> http_request \<Rightarrow> millis \<Rightarrow> (string \<times> module_result option) list \<Rightarrow>
     factor_scores \<Rightarrow> string \<Rightarrow> (verdict \<times> waf_event list) \<times> WAFMiddleware" where
  "middleware w req now turns fs requestId =
     (if shouldSkipPath (config w) (req_path req) then ((Next, []), w)
      else
        let analysis = analyzeRequest (cfg_anomalyThreshold (config w)) req now turns fs
        in if isLearningMode w
           then (case handleLearningMode w analysis now of
                   (events, w1) \<Rightarrow> ((Next, events), w1))
           else (case evaluate (ruleEngine w) analysis requestId of
                   (decision, e1) \<Rightarrow>
                     if res_action decision = Block
                     then (if cfg_dryRun (config w)
                           then ((Next, [ThreatDetected ''dry-run'' analysis]), w\<lparr>ruleEngine := e1\<rparr>)
                           else (handleBlock decision, w\<lparr>ruleEngine := e1\<rparr>))
                     else ((Next, []), w\<lparr>ruleEngine := e1\<rparr>)))"

text \<open>
  What happens to a running middleware: a request, a phase timer that fires, and the two
  learning calls of the management API (\<open>startLearning\<close> is refused while the learner is
  learning, \<open>stopLearning\<close> while it is not).
\<close>

datatype waf_input =
    Request http_request millis "(string \<times> module_result option) list" factor_scores string
  | TimerFires phase
  | ApiStartLearning
  | ApiStopLearning

fun waf_step :: "WAFMiddleware \<Rightarrow> waf_input \<Rightarrow> WAFMiddleware" where
  "waf_step w (Request req now turns fs requestId) = snd (middleware w req now turns fs requestId)"
| "waf_step w (TimerFires p) =
     (if p \<in> set (pendingTimers (adaptiveLearning w))
      then w\<lparr>adaptiveLearning :=
               transitionToPhase
                 ((adaptiveLearning w)\<lparr>pendingTimers := remove1 p (pendingTimers (adaptiveLearning w))\<rparr>)
                 p\<rparr>
      else w)"
| "waf_step w ApiStartLearning =
     (if isLearning (adaptiveLearning w) then w
      else w\<lparr>adaptiveLearning := startLearning (adaptiveLearning w)\<rparr>)"
| "waf_step w ApiStopLearning =
     (if \<not> isLearning (adaptiveLearning w) then w
      else w\<lparr>adaptiveLearning := finalizeLearning (adaptiveLearning w)\<rparr>)"

definition waf_run :: "waf_config \<Rightarrow> rule list \<Rightarrow> millis \<Rightarrow> waf_input list \<Rightarrow> WAFMiddleware" where
  "waf_run cfg enabledRules t0 inputs = foldl waf_step (WAFMiddleware_new cfg enabledRules t0) inputs"


section \<open>Concrete requests and configurations\<close>

text \<open>
  \<open>GET /\<close> and \<open>GET /api/search?q=<script>alert("xss")</script>\<close>, both without a
  User-Agent and without headers.  For such a request the User-Agent scorer returns 3 and the
  header scorer 2; on a first request at midday of a working day the other scorers return 0.
\<close>

definition bare_request :: http_request where
  "bare_request =
     \<lparr> req_ip = ''1.2.3.4'', req_userAgent = [], req_method = ''GET'', req_path = ''/'',
       req_query = [], req_body = BodyMissing, req_headers = [], req_cookies = [] \<rparr>"

definition xss_payload :: string where
  "xss_payload = ''<script>alert('' @ [CHR 0x22] @ ''xss'' @ [CHR 0x22] @ '')</script>''"

definition xss_request :: http_request where
  "xss_request = bare_request\<lparr> req_path := ''/api/search'', req_query := [(''q'', FString xss_payload)] \<rparr>"

definition bare_factors :: factor_scores where
  "bare_factors = quiet\<lparr> userAgentScore := 3, headerScore := 2 \<rparr>"



text \<open>The XSS module is the only module configured; its turn on a request at time \<open>now\<close>.\<close>

definition xss_turn :: "XSSModule \<Rightarrow> http_request \<Rightarrow> millis \<Rightarrow> (string \<times> module_result option) list" where
  "xss_turn xm req now = [(''xss'', fst (XSSModule_analyze xm (new_analysis req now)))]"

text \<open>What the XSS module returns for the payload.\<close>

definition payload_result :: module_result where
  "payload_result =
     \<lparr> m_score = 9,
       m_threats =
         [\<lparr> t_type = ''xss'', t_pattern = ''script-tag'', t_description = ''Script tag injection'',
             t_score = 3, t_matched = xss_payload \<rparr>,
          \<lparr> t_type = ''xss'', t_pattern = ''alert-payload'', t_description = ''Alert function call'',
             t_score = 2, t_matched = xss_payload \<rparr>,
          \<lparr> t_type = ''xss'', t_pattern = ''script-suspicious-content'',
             t_description = ''Script tag with suspicious content'', t_score = 4,
             t_matched = ''Script tag with alert/document access'' \<rparr>],
       m_module = ''xss'' \<rparr>"

text \<open>
  Learning mode: adaptive learning on, a learning period of 7 days, threshold 5, the middleware
  constructed at time 0 over the built-in rules.  The payload arrives at time 0; the three
  phase timers fire; the payload arrives again one millisecond after the seventh day.
\<close>

definition learning_config :: waf_config where
  "learning_config =
     \<lparr> cfg_adaptiveLearning = True, cfg_learningPeriod = Some 7, cfg_dryRun = False,
       cfg_skipPaths = None, cfg_threshold = Some 5, cfg_rules = None,
       cfg_anomalyThreshold = Some 5 \<rparr>"

definition after_seven_days :: millis where
  "after_seven_days = 7 * 24 * 60 * 60 * 1000 + 1"

definition scanner_after_first :: XSSModule where
  "scanner_after_first = snd (XSSModule_analyze XSSModule_new (new_analysis xss_request 0))"

definition waf_at_start :: WAFMiddleware where
  "waf_at_start = WAFMiddleware_new learning_config loadBuiltInRules 0"

definition first_visit :: "(verdict \<times> waf_event list) \<times> WAFMiddleware" where
  "first_visit =
     middleware waf_at_start xss_request 0 (xss_turn XSSModule_new xss_request 0) bare_factors ''req_1''"

definition waf_after_learning :: WAFMiddleware where
  "waf_after_learning =
     foldl waf_step (snd first_visit) [TimerFires Analyzing, TimerFires Adapting, TimerFires Protecting]"

definition second_analysis :: AnalysisRecord where
  "second_analysis =
     analyzeRequest (Some 5) xss_request after_seven_days
       (xss_turn scanner_after_first xss_request after_seven_days) bare_factors"

definition second_visit :: "(verdict \<times> waf_event list) \<times> WAFMiddleware" where
  "second_visit =
     middleware waf_after_learning xss_request after_seven_days
       (xss_turn scanner_after_first xss_request after_seven_days) bare_factors ''req_2''"




text \<open>
  A middleware constructed at time 0 with adaptive learning off, threshold 5; the management
  API starts the learner and the first phase timer fires; the payload arrives one
  millisecond after 60% of the seven days.
\<close>

definition enforcing_config :: waf_config where
  "enforcing_config = learning_config\<lparr> cfg_adaptiveLearning := False \<rparr>"

definition api_started_waf :: WAFMiddleware where
  "api_started_waf =
     waf_run enforcing_config loadBuiltInRules 0 [ApiStartLearning, TimerFires Analyzing]"

definition analyzing_time :: millis where
  "analyzing_time = 6 * (7 * 24 * 60 * 60 * 1000) div 10 + 1"

definition analyzing_visit :: "(verdict \<times> waf_event list) \<times> WAFMiddleware" where
  "analyzing_visit =
     middleware api_started_waf xss_request analyzing_time
       (xss_turn XSSModule_new xss_request analyzing_time) bare_factors ''req_1''"


section \<open>Properties of the rate-limit module\<close>

lemma isIPBlocked_requests: "requests (snd (isIPBlocked m a now)) = requests m"
  by (simp add: isIPBlocked_def split: option.splits)

lemma isIPBlocked_False_absent:
  "isIPBlocked m a now = (False, m1) \<Longrightarrow> blockedIPs m1 a = None"
  by (auto simp: isIPBlocked_def split: option.splits if_splits)

lemma isIPBlocked_dom: "dom (blockedIPs (snd (isIPBlocked m a now))) \<subseteq> dom (blockedIPs m)"
  by (auto simp: isIPBlocked_def split: option.splits if_splits)

lemma isIPBlocked_disjoint:
  "tables_disjoint m \<Longrightarrow> tables_disjoint (snd (isIPBlocked m a now))"
  by (auto simp: tables_disjoint_def isIPBlocked_def split: option.splits if_splits)

lemma blockIP_disjoint: "tables_disjoint m \<Longrightarrow> tables_disjoint (blockIP m a why now)"
  by (auto simp: tables_disjoint_def blockIP_def split: if_splits)

lemma unblockIP_disjoint: "tables_disjoint m \<Longrightarrow> tables_disjoint (unblockIP m a)"
  by (auto simp: tables_disjoint_def unblockIP_def split: if_splits)

lemma cleanup_disjoint: "tables_disjoint m \<Longrightarrow> tables_disjoint (cleanup m now)"
  by (auto simp: tables_disjoint_def cleanup_def dom_def split: option.splits if_splits)

lemma reset_disjoint: "tables_disjoint (reset m)"
  by (simp add: tables_disjoint_def reset_def)

lemma insert_request_disjoint:
  "tables_disjoint m \<Longrightarrow> blockedIPs m a = None \<Longrightarrow>
   tables_disjoint (m\<lparr>requests := (requests m)(a \<mapsto> r)\<rparr>)"
  by (auto simp: tables_disjoint_def)

lemma analyze_at_disjoint:
  assumes "tables_disjoint m"
  shows "tables_disjoint (snd (analyze_at m analysis t0 t1 t2))"
proof (cases "enabled m")
  case False
  then show ?thesis using assms by (simp add: analyze_at_def)
next
  case True
  define a where "a = ip analysis"
  obtain b m1 where chk: "isIPBlocked m a t1 = (b, m1)"
    by (cases "isIPBlocked m a t1")
  have d1: "tables_disjoint m1"
    using isIPBlocked_disjoint [OF assms, of a t1] chk by simp
  show ?thesis
  proof (cases b)
    case True
    then show ?thesis using \<open>enabled m\<close> chk d1 by (simp add: analyze_at_def a_def)
  next
    case False
    then have absent: "blockedIPs m1 a = None"
      using chk isIPBlocked_False_absent [of m a t1 m1] by simp
    show ?thesis
      using \<open>enabled m\<close> chk False
      by (auto simp: analyze_at_def Let_def a_def [symmetric]
            intro!: blockIP_disjoint insert_request_disjoint [OF d1 absent])
  qed
qed

lemma rl_apply_disjoint: "tables_disjoint m \<Longrightarrow> tables_disjoint (rl_apply m op)"
  by (cases op)
     (simp_all add: analyze_at_disjoint blockIP_disjoint unblockIP_disjoint cleanup_disjoint
        reset_disjoint)

lemma rl_run_disjoint: "tables_disjoint m \<Longrightarrow> tables_disjoint (foldl rl_apply m ops)"
  by (induction ops arbitrary: m) (simp_all add: rl_apply_disjoint)

lemma new_disjoint: "tables_disjoint (RateLimitModule_new rl ib)"
  by (simp add: tables_disjoint_def RateLimitModule_new_def)

lemma analyze_at_blocked_keeps_requests:
  "fst (isIPBlocked m (ip analysis) t1) \<Longrightarrow>
   requests (snd (analyze_at m analysis t0 t1 t2)) = requests m"
  by (cases "isIPBlocked m (ip analysis) t1")
     (auto simp: analyze_at_def Let_def isIPBlocked_def split: option.splits if_splits)


text \<open>
  Claim C6, amended.  \<open>isIPBlocked\<close> answers true exactly when the block table holds an entry
  for the IP with \<open>blockedUntil \<ge> now\<close> (the comparison of the source is \<open>now > blockedUntil\<close>
  for expiry, so the instant \<open>now = blockedUntil\<close> still counts as blocked); and once
  \<open>now > blockedUntil\<close>, the call deletes the entry and answers false.
\<close>

theorem isIPBlocked_iff:
  "(fst (isIPBlocked m a now) \<longleftrightarrow> (\<exists>b. blockedIPs m a = Some b \<and> now \<le> blockedUntil b)) \<and>
   (\<forall>b. blockedIPs m a = Some b \<and> blockedUntil b < now \<longrightarrow>
        isIPBlocked m a now = (False, m\<lparr>blockedIPs := (blockedIPs m)(a := None)\<rparr>) \<and>
        blockedIPs (snd (isIPBlocked m a now)) a = None)"
  by (auto simp: isIPBlocked_def split: option.splits)

theorem isIPBlocked_iff_witness:
  "blockedIPs expired_example ''1.2.3.4'' =
      Some \<lparr> blockedUntil = 1000, reason = ''manual'', blockedAt = 0 \<rparr> \<and>
   fst (isIPBlocked expired_example ''1.2.3.4'' 1000) \<and>
   \<not> fst (isIPBlocked expired_example ''1.2.3.4'' 1001) \<and>
   blockedIPs (snd (isIPBlocked expired_example ''1.2.3.4'' 1001)) ''1.2.3.4'' = None"
  using isIPBlocked_iff [of expired_example "''1.2.3.4''" 1001]
        isIPBlocked_iff [of expired_example "''1.2.3.4''" 1000]
  by (simp add: expired_example_def blockIP_def scenario_module_def RateLimitModule_new_def
        or_default_def)

text \<open>
  Claim C6 as stated fails at the boundary: with \<open>blockedUntil = 1000\<close> and \<open>now = 1000\<close> the
  IP is reported blocked although \<open>blockedUntil > now\<close> is false.
\<close>

theorem isIPBlocked_boundary_counterexample:
  "fst (isIPBlocked expired_example ''1.2.3.4'' 1000) \<and>
   blockedIPs expired_example ''1.2.3.4'' =
      Some \<lparr> blockedUntil = 1000, reason = ''manual'', blockedAt = 0 \<rparr> \<and>
   \<not> (blockedUntil \<lparr> blockedUntil = 1000, reason = ''manual'', blockedAt = 0 \<rparr> > (1000::int))"
  by (simp add: isIPBlocked_def expired_example_def blockIP_def scenario_module_def
        RateLimitModule_new_def or_default_def)

text \<open>
  Claim C7.  After every run of \<open>analyze\<close>, \<open>blockIP\<close>, \<open>unblockIP\<close>, \<open>cleanup\<close> (and
  \<open>reset\<close>) from the constructed module, no IP is in the rate table and in the block table at
  once; \<open>blockIP\<close> deletes the rate-table entry of the IP; and \<open>analyze\<close> leaves the rate
  table as it is when the IP is blocked.
\<close>

theorem tables_never_overlap:
  "tables_disjoint (foldl rl_apply (RateLimitModule_new rl ib) ops) \<and>
   requests (blockIP m a why now) a = None \<and>
   (fst (isIPBlocked m' (ip analysis) t1) \<longrightarrow>
      requests (snd (analyze_at m' analysis t0 t1 t2)) = requests m')"
  using rl_run_disjoint [OF new_disjoint, of rl ib ops]
        analyze_at_blocked_keeps_requests [of m' analysis t1 t0 t2]
  by (simp add: blockIP_def)

theorem tables_never_overlap_witness:
  "fst (isIPBlocked expired_example (ip plain_request) 500) \<and>
   requests (snd (analyze_at expired_example plain_request 500 500 500)) = requests expired_example \<and>
   requests (blockIP scenario_module ''1.2.3.4'' ''manual'' 0) ''1.2.3.4'' = None \<and>
   tables_disjoint (foldl rl_apply scenario_module
      [Analyze plain_request 0 0 0, BlockIP ''1.2.3.4'' ''manual'' 1, Analyze plain_request 2 2 2,
       Cleanup 3, UnblockIP ''1.2.3.4'', Analyze plain_request 4 4 4])"
  using tables_never_overlap
          [of "Some \<lparr> o_enabled = True, o_windowMs = Some 60000, o_max = Some 2 \<rparr>"
              "Some \<lparr> o_ipBlockingEnabled = True, o_blockDuration = Some 60000,
                      o_maxViolations = Some 2 \<rparr>"
              "[Analyze plain_request 0 0 0, BlockIP ''1.2.3.4'' ''manual'' 1,
                Analyze plain_request 2 2 2, Cleanup 3, UnblockIP ''1.2.3.4'',
                Analyze plain_request 4 4 4]"
              scenario_module "''1.2.3.4''" "''manual''" 0 expired_example plain_request 500 500 500]
  by (simp add: scenario_module_def isIPBlocked_def expired_example_def blockIP_def
        plain_request_def)




section \<open>Properties of the rule engine and of the score\<close>

lemma foldl_scores: "foldl (\<lambda>s r. s + r_score r) x ms = x + sum_list (map r_score ms)"
  by (induction ms arbitrary: x) simp_all

lemma evaluateRule_score: "r_score (snd (evaluateRule r a)) = r_score r"
  by (simp add: evaluateRule_def split: prod.splits)

lemma RegExp_test_from_0:
  "fst (RegExp_test (re\<lparr>lastIndex := 0\<rparr>) text) =
     (search (ignoreCase re) (alternatives re) text 0 \<noteq> None)"
  by (auto simp: RegExp_test_def Let_def split: option.splits)

lemma RegExp_test_cursor_only:
  "(snd (RegExp_test re text))\<lparr>lastIndex := 0\<rparr> = re\<lparr>lastIndex := 0\<rparr>"
  by (auto simp: RegExp_test_def Let_def split: option.splits)

lemma some_test_cursor_only:
  "(snd (some_test re texts))\<lparr>lastIndex := 0\<rparr> = re\<lparr>lastIndex := 0\<rparr>"
proof (induction texts arbitrary: re)
  case Nil
  then show ?case by simp
next
  case (Cons t ts)
  obtain hit re1 where r: "RegExp_test (re\<lparr>lastIndex := 0\<rparr>) t = (hit, re1)"
    by (cases "RegExp_test (re\<lparr>lastIndex := 0\<rparr>) t")
  have c: "re1\<lparr>lastIndex := 0\<rparr> = re\<lparr>lastIndex := 0\<rparr>"
    using RegExp_test_cursor_only [of "re\<lparr>lastIndex := 0\<rparr>" t] r by simp
  show ?case
  proof (cases hit)
    case True
    then show ?thesis using r c by simp
  next
    case False
    then show ?thesis using r c Cons.IH [of re1] by simp
  qed
qed

lemma cursor_only_fields:
  assumes "re1\<lparr>lastIndex := 0\<rparr> = re\<lparr>lastIndex := 0\<rparr>"
  shows "alternatives re1 = alternatives re" and "ignoreCase re1 = ignoreCase re"
proof -
  have "alternatives (re1\<lparr>lastIndex := 0\<rparr>) = alternatives (re\<lparr>lastIndex := 0\<rparr>)"
    and "ignoreCase (re1\<lparr>lastIndex := 0\<rparr>) = ignoreCase (re\<lparr>lastIndex := 0\<rparr>)"
    using assms by simp_all
  then show "alternatives re1 = alternatives re" and "ignoreCase re1 = ignoreCase re" by simp_all
qed

lemma some_test_matches:
  "fst (some_test re texts) =
     list_ex (\<lambda>text. search (ignoreCase re) (alternatives re) text 0 \<noteq> None) texts"
proof (induction texts arbitrary: re)
  case Nil
  then show ?case by simp
next
  case (Cons t ts)
  obtain hit re1 where r: "RegExp_test (re\<lparr>lastIndex := 0\<rparr>) t = (hit, re1)"
    by (cases "RegExp_test (re\<lparr>lastIndex := 0\<rparr>) t")
  have h: "hit = (search (ignoreCase re) (alternatives re) t 0 \<noteq> None)"
    using RegExp_test_from_0 [of re t] r by simp
  have "re1\<lparr>lastIndex := 0\<rparr> = re\<lparr>lastIndex := 0\<rparr>"
    using RegExp_test_cursor_only [of "re\<lparr>lastIndex := 0\<rparr>" t] r by simp
  then have f: "alternatives re1 = alternatives re" "ignoreCase re1 = ignoreCase re"
    by (rule cursor_only_fields)+
  show ?case
  proof (cases hit)
    case True
    then show ?thesis using r h by simp
  next
    case False
    then show ?thesis using r h f Cons.IH [of re1] by simp
  qed
qed

lemma evaluateRule_matches: "fst (evaluateRule r a) = rule_matches r a"
  using some_test_matches [of "r_pattern r" "extractSearchTexts a"]
  by (cases "some_test (r_pattern r) (extractSearchTexts a)")
     (simp add: evaluateRule_def rule_matches_def)

lemma evaluateRule_forget: "forget_cursor (snd (evaluateRule r a)) = forget_cursor r"
  using some_test_cursor_only [of "r_pattern r" "extractSearchTexts a"]
  by (cases "some_test (r_pattern r) (extractSearchTexts a)")
     (simp add: evaluateRule_def forget_cursor_def)

lemma scan_rules_filter:
  "map forget_cursor (fst (scan_rules rs a)) = map forget_cursor (filter (\<lambda>r. rule_matches r a) rs)"
proof (induction rs)
  case Nil
  then show ?case by simp
next
  case (Cons r rs)
  obtain hit r1 where e: "evaluateRule r a = (hit, r1)" by (cases "evaluateRule r a")
  have "hit = rule_matches r a" using evaluateRule_matches [of r a] e by simp
  moreover have "forget_cursor r1 = forget_cursor r" using evaluateRule_forget [of r a] e by simp
  ultimately show ?case using Cons e by (cases "scan_rules rs a") simp
qed

lemma forget_cursor_score: "r_score (forget_cursor r) = r_score r"
  by (simp add: forget_cursor_def)

lemma scan_rules_scores:
  "map r_score (fst (scan_rules rs a)) = map r_score (filter (\<lambda>r. rule_matches r a) rs)"
proof -
  have "map r_score (map forget_cursor (fst (scan_rules rs a))) =
        map r_score (map forget_cursor (filter (\<lambda>r. rule_matches r a) rs))"
    by (simp only: scan_rules_filter)
  then show ?thesis by (simp add: forget_cursor_score comp_def)
qed


lemma evaluate_fields:
  "res_score (fst (evaluate e a rid)) =
     score a + sum_list (map r_score (filter (\<lambda>r. rule_matches r a) (rules e)))"
  "map forget_cursor (matchedRules (fst (evaluate e a rid))) =
     map forget_cursor (filter (\<lambda>r. rule_matches r a) (rules e))"
  "res_action (fst (evaluate e a rid)) =
     (if threshold e \<le> score a + sum_list (map r_score (filter (\<lambda>r. rule_matches r a) (rules e)))
      then Block
      else if threshold e \<le> score a then Block else Allow)"
proof -
  obtain matched rs1 where sc: "scan_rules (rules e) a = (matched, rs1)"
    by (cases "scan_rules (rules e) a")
  have s: "map r_score matched = map r_score (filter (\<lambda>r. rule_matches r a) (rules e))"
    using scan_rules_scores [of "rules e" a] sc by simp
  have f: "map forget_cursor matched = map forget_cursor (filter (\<lambda>r. rule_matches r a) (rules e))"
    using scan_rules_filter [of "rules e" a] sc by simp
  show "res_score (fst (evaluate e a rid)) =
     score a + sum_list (map r_score (filter (\<lambda>r. rule_matches r a) (rules e)))"
    using sc s by (simp add: evaluate_def Let_def foldl_scores)
  show "map forget_cursor (matchedRules (fst (evaluate e a rid))) =
     map forget_cursor (filter (\<lambda>r. rule_matches r a) (rules e))"
    using sc f by (simp add: evaluate_def Let_def)
  show "res_action (fst (evaluate e a rid)) =
     (if threshold e \<le> score a + sum_list (map r_score (filter (\<lambda>r. rule_matches r a) (rules e)))
      then Block
      else if threshold e \<le> score a then Block else Allow)"
    using sc s by (simp add: evaluate_def Let_def foldl_scores)
qed

text \<open>
  The verdict of \<open>evaluateRule\<close> does not depend on where an earlier call left the cursor
  of the rule's expression: every \<open>test\<close> starts at 0.
\<close>

lemma some_test_resets: "fst (some_test (re\<lparr>lastIndex := n\<rparr>) texts) = fst (some_test re texts)"
  by (cases texts) simp_all

lemma evaluateRule_stateless:
  "fst (evaluateRule (r\<lparr>r_pattern := (r_pattern r)\<lparr>lastIndex := n\<rparr>\<rparr>) a) = fst (evaluateRule r a)"
  using some_test_resets [where re = "r_pattern r" and n = n and texts = "extractSearchTexts a"]
  by (cases "some_test ((r_pattern r)\<lparr>lastIndex := n\<rparr>) (extractSearchTexts a)";
      cases "some_test (r_pattern r) (extractSearchTexts a)")
     (simp add: evaluateRule_def)






text \<open>
  Claim C4 fails on the code.  With \<open>anomalyThreshold = 5\<close> and a request none of whose
  factors scores, the total is 0, which does not exceed 5, and \<open>isAnomaly\<close> is the number 5,
  a truthy value, not \<open>false\<close>: the source's \<open>totalScore > anomalyThreshold || 5\<close> is
  \<open>(totalScore > anomalyThreshold) || 5\<close>.
\<close>

theorem isAnomaly_is_5_below_threshold:
  "totalScore (calculateScore (Some 5) quiet) = 0 \<and>
   \<not> (totalScore (calculateScore (Some 5) quiet) > 5) \<and>
   ar_isAnomaly (calculateScore (Some 5) quiet) = JNum 5 \<and>
   truthy (ar_isAnomaly (calculateScore (Some 5) quiet))"
  by (simp add: calculateScore_def collect_factors_def add_factor_def quiet_def js_or_def
        greater_than_def Math_round_def calculateConfidence_def)

text \<open>In general, below the short-circuit, \<open>isAnomaly\<close> is \<open>true\<close> or 5 and never \<open>false\<close>.\<close>

lemma isAnomaly_general:
  "(case thr of None \<Rightarrow> True | Some t \<Rightarrow> t \<le> 100) \<Longrightarrow>
   ar_isAnomaly (calculateScore thr fs) =
     (if greater_than (fst (collect_factors fs)) thr then JBool True else JNum 5)"
  by (auto simp: calculateScore_def js_or_def split: option.splits prod.splits)

lemma run_modules_score:
  "score (foldl run_module a turns) = score a + sum_list (map m_score (returned turns))"
  by (induction turns arbitrary: a rule: returned.induct) (simp_all add: run_module_def)




lemma analyzeRequest_given_score:
  "score (analyzeRequest_given ar req now turns) =
     sum_list (map m_score (returned turns)) + totalScore ar"
  by (simp add: analyzeRequest_given_def Let_def run_modules_score new_analysis_def)

lemma analyzeRequest_score:
  "score (analyzeRequest thr req now turns fs) =
     sum_list (map m_score (returned turns)) + totalScore (calculateScore thr fs)"
  by (simp add: analyzeRequest_def analyzeRequest_given_score)


text \<open>
  The XSS module never returns a negative score, in any state it reaches: every pattern and
  every combination has a positive score.
\<close>

lemma nonneg_threats: "list_all (\<lambda>t. 0 \<le> t_score t) ts \<Longrightarrow> 0 \<le> sum_list (map t_score ts)"
  by (induction ts) simp_all

lemma test_texts_score: "p_score (snd (test_texts p texts)) = p_score p"
proof (induction texts arbitrary: p)
  case Nil
  then show ?case by simp
next
  case (Cons t ts)
  obtain hit re where r: "RegExp_test (p_pattern p) t = (hit, re)"
    by (cases "RegExp_test (p_pattern p) t")
  show ?case
    using r Cons.IH [of "p\<lparr>p_pattern := re\<rparr>"]
    by (cases "test_texts (p\<lparr>p_pattern := re\<rparr>) ts") simp
qed

lemma test_texts_nonneg:
  "0 \<le> p_score p \<Longrightarrow> list_all (\<lambda>t. 0 \<le> t_score t) (fst (test_texts p texts))"
proof (induction texts arbitrary: p)
  case Nil
  then show ?case by simp
next
  case (Cons t ts)
  obtain hit re where r: "RegExp_test (p_pattern p) t = (hit, re)"
    by (cases "RegExp_test (p_pattern p) t")
  have "list_all (\<lambda>t. 0 \<le> t_score t) (fst (test_texts (p\<lparr>p_pattern := re\<rparr>) ts))"
    using Cons.prems by (intro Cons.IH) simp
  then show ?case
    using r Cons.prems
    by (cases "test_texts (p\<lparr>p_pattern := re\<rparr>) ts") (simp add: pattern_threat_def)
qed

lemma scan_patterns_nonneg:
  "list_all (\<lambda>p. 0 \<le> p_score p) ps \<Longrightarrow>
   list_all (\<lambda>t. 0 \<le> t_score t) (fst (scan_patterns ps texts)) \<and>
   list_all (\<lambda>p. 0 \<le> p_score p) (snd (scan_patterns ps texts))"
proof (induction ps)
  case Nil
  then show ?case by simp
next
  case (Cons p ps)
  obtain found p1 where t: "test_texts p texts = (found, p1)" by (cases "test_texts p texts")
  have f: "list_all (\<lambda>t. 0 \<le> t_score t) found" and s: "0 \<le> p_score p1"
    using test_texts_nonneg [of p texts] test_texts_score [of p texts] t Cons.prems by simp_all
  show ?case using t f s Cons by (cases "scan_patterns ps texts") simp
qed

lemma checkCombinations_nonneg: "list_all (\<lambda>t. 0 \<le> t_score t) (checkCombinations texts)"
  by (simp add: checkCombinations_def Let_def)

lemma loadXSSPatterns_nonneg: "list_all (\<lambda>p. 0 \<le> p_score p) (patterns XSSModule_new)"
  by (simp add: XSSModule_new_def loadXSSPatterns_def xp_def)

lemma XSSModule_score_nonneg:
  assumes "list_all (\<lambda>p. 0 \<le> p_score p) (patterns xm)"
  shows "list_all (\<lambda>r. 0 \<le> m_score r) (returned [(''xss'', fst (XSSModule_analyze xm a))])"
    and "list_all (\<lambda>p. 0 \<le> p_score p) (patterns (snd (XSSModule_analyze xm a)))"
proof -
  obtain found ps1 where sc: "scan_patterns (patterns xm) (extractSearchTexts a) = (found, ps1)"
    by (cases "scan_patterns (patterns xm) (extractSearchTexts a)")
  have f: "list_all (\<lambda>t. 0 \<le> t_score t) found" and p: "list_all (\<lambda>p. 0 \<le> p_score p) ps1"
    using scan_patterns_nonneg [OF assms, of "extractSearchTexts a"] sc by simp_all
  have "0 \<le> sum_list (map t_score found)
          + sum_list (map t_score (checkCombinations (extractSearchTexts a)))"
    using nonneg_threats [OF f] nonneg_threats [OF checkCombinations_nonneg] by simp
  then show "list_all (\<lambda>r. 0 \<le> m_score r) (returned [(''xss'', fst (XSSModule_analyze xm a))])"
    using sc by (simp add: XSSModule_analyze_def Let_def)
  show "list_all (\<lambda>p. 0 \<le> p_score p) (patterns (snd (XSSModule_analyze xm a)))"
    using sc p by (simp add: XSSModule_analyze_def Let_def)
qed






section \<open>Properties of the learner and of the middleware\<close>

lemma slice_last_rev: "slice_last n xs = rev (take n (rev xs))"
  by (simp add: slice_last_def take_rev)

lemma slice_last_append: "slice_last n (slice_last n xs @ ys) = slice_last n (xs @ ys)"
  by (simp add: slice_last_rev min_def)

lemma recordRequest_requests:
  "ld_requests (recordRequest al a) = slice_last 10000 (ld_requests al @ [requestData_of a])"
  by (simp add: recordRequest_def Let_def slice_last_def)

text \<open>
  The buffer of requests holds the last 10000 requests recorded, oldest first: it never
  exceeds the cap and the oldest entries are the ones dropped.
\<close>

lemma record_all_requests:
  assumes "length (ld_requests al) \<le> 10000"
  shows "ld_requests (foldl recordRequest al as) =
           slice_last 10000 (ld_requests al @ map requestData_of as)"
  using assms
proof (induction as arbitrary: al)
  case Nil
  then show ?case by (simp add: slice_last_def)
next
  case (Cons a as)
  have le: "length (ld_requests (recordRequest al a)) \<le> 10000"
    by (simp add: recordRequest_requests slice_last_def)
  show ?case
    using Cons.IH [OF le]
      slice_last_append [of 10000 "ld_requests al @ [requestData_of a]" "map requestData_of as"]
    by (simp add: recordRequest_requests)
qed

lemma requests_buffer_capped:
  "length (ld_requests al) \<le> 10000 \<Longrightarrow> length (ld_requests (foldl recordRequest al as)) \<le> 10000"
  by (simp add: record_all_requests slice_last_def)

lemma recordRequest_threats:
  "threats a \<noteq> [] \<Longrightarrow> ld_threats (recordRequest al a) = ld_threats al @ [threatEntry_of a]"
  by (simp add: recordRequest_def Let_def)

lemma record_all_threats:
  "threats a \<noteq> [] \<Longrightarrow>
   length (ld_threats (foldl recordRequest al (replicate n a))) = length (ld_threats al) + n"
  by (induction n arbitrary: al) (simp_all add: recordRequest_threats)

text \<open>
  Claim C9 fails on the code for the buffer of threats.  After 10001 recorded requests that
  each carry a threat, the buffer of requests holds 10000 entries and the buffer of threats
  10001: \<open>recordRequest\<close> trims \<open>learningData.requests\<close> and never \<open>learningData.threats\<close>.
\<close>

theorem threats_buffer_exceeds_cap:
  "length (ld_threats (foldl recordRequest collecting_learner (replicate 10001 threat_request))) = 10001 \<and>
   length (ld_requests (foldl recordRequest collecting_learner (replicate 10001 threat_request))) = 10000"
proof -
  have t: "threats threat_request \<noteq> []" by (simp add: threat_request_def)
  have e: "ld_threats collecting_learner = []" "ld_requests collecting_learner = []"
    by (simp_all add: collecting_learner_def AdaptiveLearning_new_def Let_def startLearning_def
          setupPhaseTransitions_def)
  have "length (ld_threats (foldl recordRequest collecting_learner (replicate 10001 threat_request)))
          = length (ld_threats collecting_learner) + 10001"
    using t by (rule record_all_threats)
  moreover have "ld_requests (foldl recordRequest collecting_learner (replicate 10001 threat_request))
          = slice_last 10000 (ld_requests collecting_learner
              @ map requestData_of (replicate 10001 threat_request))"
    by (rule record_all_requests) (simp add: e)
  ultimately show ?thesis
    by (simp only: e list.size append_Nil length_map length_replicate slice_last_def length_drop)
       simp
qed

lemma middleware_mode: "isLearningMode (snd (middleware w req now turns fs rid)) = isLearningMode w"
  by (simp add: middleware_def handleLearningMode_def Let_def split: prod.splits)

lemma middleware_config: "config (snd (middleware w req now turns fs rid)) = config w"
  by (simp add: middleware_def handleLearningMode_def Let_def split: prod.splits)

lemma waf_step_mode: "isLearningMode (waf_step w i) = isLearningMode w"
  by (cases i) (simp_all add: middleware_mode)

lemma waf_step_config: "config (waf_step w i) = config w"
  by (cases i) (simp_all add: middleware_config)

lemma foldl_mode: "isLearningMode (foldl waf_step w inputs) = isLearningMode w"
  by (induction inputs arbitrary: w) (simp_all add: waf_step_mode)

lemma foldl_config: "config (foldl waf_step w inputs) = config w"
  by (induction inputs arbitrary: w) (simp_all add: waf_step_config)

lemma new_mode: "isLearningMode (WAFMiddleware_new cfg rs t0) = cfg_adaptiveLearning cfg"
  by (auto simp: WAFMiddleware_new_def AdaptiveLearning_new_def Let_def startLearning_def
        setupPhaseTransitions_def)

text \<open>\<open>isLearningMode\<close> is written by the constructor and by nothing else.\<close>

lemma waf_run_mode: "isLearningMode (waf_run cfg rs t0 inputs) = cfg_adaptiveLearning cfg"
  by (simp add: waf_run_def foldl_mode new_mode)

lemma waf_run_config: "config (waf_run cfg rs t0 inputs) = cfg"
  by (simp add: waf_run_def foldl_config WAFMiddleware_new_def Let_def)

text \<open>
  A learner that was constructed with adaptive learning off stays in the protecting phase
  unless the management API starts it.
\<close>

lemma middleware_idle:
  assumes "currentPhase (adaptiveLearning w) = Protecting \<and> pendingTimers (adaptiveLearning w) = []
           \<and> \<not> isLearning (adaptiveLearning w)"
  shows "currentPhase (adaptiveLearning (snd (middleware w req now turns fs rid))) = Protecting
         \<and> pendingTimers (adaptiveLearning (snd (middleware w req now turns fs rid))) = []
         \<and> \<not> isLearning (adaptiveLearning (snd (middleware w req now turns fs rid)))"
  using assms
  by (auto simp: middleware_def handleLearningMode_def Let_def processRequest_def
        split: prod.splits)

lemma waf_step_idle:
  assumes "currentPhase (adaptiveLearning w) = Protecting \<and> pendingTimers (adaptiveLearning w) = []
           \<and> \<not> isLearning (adaptiveLearning w)"
    and "i \<noteq> ApiStartLearning"
  shows "currentPhase (adaptiveLearning (waf_step w i)) = Protecting
         \<and> pendingTimers (adaptiveLearning (waf_step w i)) = []
         \<and> \<not> isLearning (adaptiveLearning (waf_step w i))"
proof (cases i)
  case (Request req now turns fs rid)
  then show ?thesis using middleware_idle [OF assms(1)] by simp
qed (use assms in auto)

lemma foldl_idle:
  assumes "currentPhase (adaptiveLearning w) = Protecting \<and> pendingTimers (adaptiveLearning w) = []
           \<and> \<not> isLearning (adaptiveLearning w)"
    and "ApiStartLearning \<notin> set inputs"
  shows "currentPhase (adaptiveLearning (foldl waf_step w inputs)) = Protecting"
  using assms
proof (induction inputs arbitrary: w)
  case Nil
  then show ?case by simp
next
  case (Cons i inputs)
  have "currentPhase (adaptiveLearning (waf_step w i)) = Protecting
         \<and> pendingTimers (adaptiveLearning (waf_step w i)) = []
         \<and> \<not> isLearning (adaptiveLearning (waf_step w i))"
    using Cons.prems by (intro waf_step_idle) auto
  then show ?case using Cons by simp
qed

lemma disabled_learner_stays_protecting:
  assumes "\<not> cfg_adaptiveLearning cfg" and "ApiStartLearning \<notin> set inputs"
  shows "currentPhase (adaptiveLearning (waf_run cfg rs t0 inputs)) = Protecting"
proof -
  have "currentPhase (adaptiveLearning (WAFMiddleware_new cfg rs t0)) = Protecting
        \<and> pendingTimers (adaptiveLearning (WAFMiddleware_new cfg rs t0)) = []
        \<and> \<not> isLearning (adaptiveLearning (WAFMiddleware_new cfg rs t0))"
    using assms(1) by (simp add: WAFMiddleware_new_def AdaptiveLearning_new_def Let_def)
  from foldl_idle [OF this assms(2)] show ?thesis by (simp add: waf_run_def)
qed

lemma middleware_learning:
  "isLearningMode w \<Longrightarrow>
   fst (middleware w req now turns fs rid) =
     (Next, if shouldSkipPath (config w) (req_path req) then []
            else if score (analyzeRequest (cfg_anomalyThreshold (config w)) req now turns fs) > 0
                 then [ThreatDetected ''learning''
                         (analyzeRequest (cfg_anomalyThreshold (config w)) req now turns fs)]
                 else [])"
  by (simp add: middleware_def handleLearningMode_def Let_def split: prod.splits)

lemma middleware_records:
  "isLearningMode w \<Longrightarrow> \<not> shouldSkipPath (config w) (req_path req) \<Longrightarrow>
   isLearning (adaptiveLearning w) \<Longrightarrow>
   ld_requests (adaptiveLearning (snd (middleware w req now turns fs rid))) =
     slice_last 10000 (ld_requests (adaptiveLearning w)
        @ [requestData_of (analyzeRequest (cfg_anomalyThreshold (config w)) req now turns fs)])"
  by (simp add: middleware_def handleLearningMode_def Let_def processRequest_def
       updateLearningProgress_def recordRequest_def slice_last_def split: prod.splits)

text \<open>
  A middleware constructed with adaptive learning on allows every request, in every state
  it reaches and whatever the phase: the verdict is \<open>next()\<close>, the only event is the
  threat-detected event of type learning (when the request is not on a skip path and its
  score is positive), and, while the learner is learning, the request is appended to the
  learner's buffer.
\<close>

lemma configured_learning_allows:
  assumes "cfg_adaptiveLearning cfg"
  shows "fst (fst (middleware (waf_run cfg rs t0 inputs) req now turns fs rid)) = Next \<and>
         snd (fst (middleware (waf_run cfg rs t0 inputs) req now turns fs rid)) =
           (if shouldSkipPath cfg (req_path req) then []
            else if score (analyzeRequest (cfg_anomalyThreshold cfg) req now turns fs) > 0
                 then [ThreatDetected ''learning''
                         (analyzeRequest (cfg_anomalyThreshold cfg) req now turns fs)]
                 else []) \<and>
         (\<not> shouldSkipPath cfg (req_path req) \<and> isLearning (adaptiveLearning (waf_run cfg rs t0 inputs)) \<longrightarrow>
            ld_requests (adaptiveLearning (snd (middleware (waf_run cfg rs t0 inputs) req now turns fs rid))) =
              slice_last 10000 (ld_requests (adaptiveLearning (waf_run cfg rs t0 inputs))
                 @ [requestData_of (analyzeRequest (cfg_anomalyThreshold cfg) req now turns fs)]))"
proof -
  have mode: "isLearningMode (waf_run cfg rs t0 inputs)" using assms by (simp add: waf_run_mode)
  show ?thesis
    using middleware_learning [OF mode, of req now turns fs rid]
          middleware_records [OF mode, of req now turns fs rid]
    by (simp add: waf_run_config)
qed

text \<open>
  Claim C2 fails on the code.  The middleware does not look at the phase: it takes the
  learning branch when \<open>isLearningMode\<close> is set, and that was computed in the constructor.
  A middleware constructed with adaptive learning off, whose learner the management API
  then starts, is in the analyzing phase once the first timer has fired; the XSS payload
  that arrives then is answered with 403 (score 17 against threshold 5).
\<close>

theorem learning_phase_request_blocked:
  "\<not> cfg_adaptiveLearning enforcing_config \<and>
   currentPhase (adaptiveLearning api_started_waf) = Analyzing \<and>
   \<not> isLearningMode api_started_waf \<and>
   fst (fst analyzing_visit) =
     Forbidden \<lparr> fb_reason = Some (17, 5), fb_requestId = ''req_1'', fb_score = 14,
                 fb_anomalyScore = Some 5,
                 fb_threats = [''Script tag injection'', ''Alert function call'',
                               ''Script tag with suspicious content''] \<rparr>"
  by code_simp

text \<open>A middleware constructed with adaptive learning on never enforces, whatever happens later.\<close>

lemma configured_learning_never_blocks:
  assumes "cfg_adaptiveLearning cfg"
  shows "fst (fst (middleware (waf_run cfg rs t0 inputs) req now turns fs rid)) = Next"
proof -
  have "isLearningMode (waf_run cfg rs t0 inputs)" using assms by (simp add: waf_run_mode)
  from middleware_learning [OF this] show ?thesis by simp
qed

lemma payload_first:
  "fst (XSSModule_analyze XSSModule_new (new_analysis xss_request 0)) = Some payload_result"
  by code_simp

lemma payload_second:
  "fst (XSSModule_analyze scanner_after_first (new_analysis xss_request after_seven_days)) =
     Some payload_result"
  by code_simp

lemma bare_anomaly: "totalScore (calculateScore (Some 5) bare_factors) = 5"
  by (simp add: calculateScore_def collect_factors_def add_factor_def bare_factors_def quiet_def
        Math_round_def)

lemma middleware_learner_flags:
  "pendingTimers (adaptiveLearning (snd (middleware w req now turns fs rid))) =
     pendingTimers (adaptiveLearning w)"
  "isLearning (adaptiveLearning (snd (middleware w req now turns fs rid))) =
     isLearning (adaptiveLearning w)"
  "currentPhase (adaptiveLearning (snd (middleware w req now turns fs rid))) =
     currentPhase (adaptiveLearning w)"
  by (simp_all add: middleware_def handleLearningMode_def Let_def processRequest_def
        updateLearningProgress_def recordRequest_def split: prod.splits)

lemma middleware_learning_engine:
  "isLearningMode w \<Longrightarrow> ruleEngine (snd (middleware w req now turns fs rid)) = ruleEngine w"
  by (simp add: middleware_def handleLearningMode_def Let_def split: prod.splits)

lemma timers_fire:
  assumes "pendingTimers (adaptiveLearning w) = [Analyzing, Adapting, Protecting]"
  shows "currentPhase (adaptiveLearning (foldl waf_step w
            [TimerFires Analyzing, TimerFires Adapting, TimerFires Protecting])) = Protecting"
    and "\<not> isLearning (adaptiveLearning (foldl waf_step w
            [TimerFires Analyzing, TimerFires Adapting, TimerFires Protecting]))"
    and "ruleEngine (foldl waf_step w
            [TimerFires Analyzing, TimerFires Adapting, TimerFires Protecting]) = ruleEngine w"
  using assms by (simp_all add: transitionToPhase_def finalizeLearning_def Let_def)

lemma start_state:
  "isLearningMode waf_at_start"
  "config waf_at_start = learning_config"
  "pendingTimers (adaptiveLearning waf_at_start) = [Analyzing, Adapting, Protecting]"
  "threshold (ruleEngine waf_at_start) = 5"
  by (simp_all add: waf_at_start_def WAFMiddleware_new_def AdaptiveLearning_new_def Let_def
        startLearning_def setupPhaseTransitions_def learning_config_def setRuleManager_def
        RuleEngine_new_def or_default_def)

lemma search_path_kept: "\<not> shouldSkipPath learning_config (req_path xss_request)"
  by (simp add: shouldSkipPath_def learning_config_def xss_request_def)

lemma first_score:
  "score (analyzeRequest (Some 5) xss_request 0 (xss_turn XSSModule_new xss_request 0) bare_factors) = 14"
  by (simp add: analyzeRequest_score xss_turn_def payload_first bare_anomaly payload_result_def)

lemma second_score: "score second_analysis = 14"
  by (simp add: second_analysis_def analyzeRequest_score xss_turn_def payload_second bare_anomaly
        payload_result_def)

text \<open>
  Claim C3 fails on the code.  With adaptive learning on and a learning period of 7 days the
  XSS payload sent at time 0 is allowed and the threat-detected event of type learning is
  emitted; after the three phase timers have fired the learner is in the protecting phase and
  no longer learning, and for the same payload, sent after the seventh day, the rule engine
  would answer block (score 14, threshold 5); but the middleware still takes the learning
  branch, because \<open>isLearningMode\<close> was computed in the constructor, and allows the request.
\<close>

theorem enforcement_never_begins:
  "fst first_visit =
     (Next, [ThreatDetected ''learning''
        (analyzeRequest (Some 5) xss_request 0 (xss_turn XSSModule_new xss_request 0) bare_factors)]) \<and>
   currentPhase (adaptiveLearning waf_after_learning) = Protecting \<and>
   \<not> isLearning (adaptiveLearning waf_after_learning) \<and>
   score second_analysis = 14 \<and>
   res_action (fst (evaluate (ruleEngine waf_after_learning) second_analysis ''req_2'')) = Block \<and>
   fst second_visit = (Next, [ThreatDetected ''learning'' second_analysis])"
proof -
  have cfg5: "cfg_anomalyThreshold learning_config = Some 5"
    by (simp add: learning_config_def)
  have first: "fst first_visit =
     (Next, [ThreatDetected ''learning''
        (analyzeRequest (Some 5) xss_request 0 (xss_turn XSSModule_new xss_request 0) bare_factors)])"
    unfolding first_visit_def
    using middleware_learning [OF start_state(1), of xss_request 0
            "xss_turn XSSModule_new xss_request 0" bare_factors "''req_1''"]
    by (simp add: start_state search_path_kept cfg5 first_score)
  have pending: "pendingTimers (adaptiveLearning (snd first_visit)) = [Analyzing, Adapting, Protecting]"
    by (simp add: first_visit_def middleware_learner_flags start_state)
  have mode: "isLearningMode waf_after_learning"
    by (simp add: waf_after_learning_def foldl_mode first_visit_def middleware_mode start_state)
  have cfg: "config waf_after_learning = learning_config"
    by (simp add: waf_after_learning_def foldl_config first_visit_def middleware_config start_state)
  have eng: "ruleEngine waf_after_learning = ruleEngine waf_at_start"
    unfolding waf_after_learning_def
    by (simp only: timers_fire(3) [OF pending])
       (simp add: first_visit_def middleware_learning_engine start_state)
  have blocked:
    "res_action (fst (evaluate (ruleEngine waf_after_learning) second_analysis ''req_2'')) = Block"
    by (simp add: evaluate_fields eng start_state second_score)
  have second: "fst second_visit = (Next, [ThreatDetected ''learning'' second_analysis])"
    unfolding second_visit_def
    using middleware_learning [OF mode, of xss_request after_seven_days
            "xss_turn scanner_after_first xss_request after_seven_days" bare_factors "''req_2''"]
          second_score
    by (simp add: cfg search_path_kept cfg5 second_analysis_def)
  show ?thesis
    using first timers_fire(1,2) [OF pending] second_score blocked second
    by (simp add: waf_after_learning_def)
qed


section \<open>The XSS module keeps state between calls\<close>

text \<open>
  Claim C10 fails on the code.  \<open>analyze\<close> calls \<open>test\<close> on expressions with the flag \<open>g\<close>
  and never resets their cursor.  For \<open>GET /javascript:\<close> the first call on a fresh module
  returns the javascript-url threat with score 3 and leaves the cursor of that expression at
  12, the end of the path; the second call on the same record starts the search there, finds
  nothing and returns null.
\<close>

theorem analyze_twice_differs:
  "fst (XSSModule_analyze XSSModule_new javascript_path) =
     Some \<lparr> m_score = 3,
            m_threats = [\<lparr> t_type = ''xss'', t_pattern = ''javascript-url'',
                           t_description = ''JavaScript URL scheme'', t_score = 3,
                           t_matched = ''/javascript:'' \<rparr>],
            m_module = ''xss'' \<rparr> \<and>
   fst (XSSModule_analyze (snd (XSSModule_analyze XSSModule_new javascript_path)) javascript_path)
     = None"
  by code_simp

end
